theory Spec2Isabelle
  imports Main
begin

section \<open>Python values, exceptions and HTTP errors\<close>

text \<open>
  The values that flow through \<^verbatim>\<open>auth_google\<close> (src/backend/main.py): \<^verbatim>\<open>None\<close>, strings
  and naive \<^verbatim>\<open>datetime\<close> objects. A \<^verbatim>\<open>datetime\<close> is the number of microseconds since
  \<^verbatim>\<open>datetime.min\<close> (0001-01-01T00:00:00).
\<close>

datatype pyval = PNone | PStr string | PDatetime int

text \<open>The exceptions that can be raised inside the \<^verbatim>\<open>try\<close> block; each carries \<^verbatim>\<open>str(e)\<close>.\<close>

datatype exn =
    ValueError string
  | AttributeError string
  | OverflowError string
  | LibraryError string  \<comment> \<open>raised by google-auth, pymongo or python-jose\<close>

fun str_exn :: "exn \<Rightarrow> string" where
  "str_exn (ValueError m) = m"
| "str_exn (AttributeError m) = m"
| "str_exn (OverflowError m) = m"
| "str_exn (LibraryError m) = m"

datatype http_exception = HTTPException (status_code: nat) (detail: string)

text \<open>\<^verbatim>\<open>x if x is not None else None\<close>: an optional string as a Python value.\<close>

fun opt_val :: "string option \<Rightarrow> pyval" where
  "opt_val None = PNone"
| "opt_val (Some s) = PStr s"

text \<open>Python truthiness of an optional string: \<^verbatim>\<open>not x\<close> holds for \<^verbatim>\<open>None\<close> and for \<^verbatim>\<open>""\<close>.\<close>

fun py_not :: "string option \<Rightarrow> bool" where
  "py_not None = True"
| "py_not (Some s) = (s = [])"

section \<open>Rendering and parsing integers\<close>

fun show_nat :: "nat \<Rightarrow> string" where
  "show_nat n =
     (if n < 10 then [char_of (48 + n)]
      else show_nat (n div 10) @ [char_of (48 + n mod 10)])"

declare show_nat.simps [simp del]

definition show_int :: "int \<Rightarrow> string" where
  "show_int i = (if i < 0 then CHR ''-'' # show_nat (nat (- i)) else show_nat (nat i))"

definition is_space :: "char \<Rightarrow> bool" where
  "is_space c = (c \<in> set [CHR '' '', CHR 0x09, CHR 0x0A, CHR 0x0B, CHR 0x0C, CHR 0x0D])"

definition is_digit :: "char \<Rightarrow> bool" where
  "is_digit c = (48 \<le> (of_char c :: nat) \<and> (of_char c :: nat) \<le> 57)"

definition digit_val :: "char \<Rightarrow> nat" where
  "digit_val c = (of_char c :: nat) - 48"

text \<open>
  The digit part of a decimal literal accepted by \<^verbatim>\<open>int(s)\<close>: digits, with single
  underscores allowed between two digits. \<open>parse_digits\<close> expects a digit next,
  \<open>parse_more\<close> has just read one.
\<close>

fun parse_digits :: "nat \<Rightarrow> string \<Rightarrow> nat option"
  and parse_more :: "nat \<Rightarrow> string \<Rightarrow> nat option" where
  "parse_digits acc [] = None"
| "parse_digits acc (c # cs) =
     (if is_digit c then parse_more (acc * 10 + digit_val c) cs else None)"
| "parse_more acc [] = Some acc"
| "parse_more acc (c # cs) =
     (if c = CHR ''_'' then parse_digits acc cs
      else if is_digit c then parse_more (acc * 10 + digit_val c) cs
      else None)"

definition strip :: "string \<Rightarrow> string" where
  "strip s = rev (dropWhile is_space (rev (dropWhile is_space s)))"

text \<open>
  \<^verbatim>\<open>int(s)\<close> on ASCII text, base 10: surrounding whitespace, an optional sign, then the
  digits. \<open>None\<close> is \<^verbatim>\<open>ValueError\<close>. (Characters outside ASCII, among which Python also
  accepts Unicode whitespace and decimal digits, and the interpreter's limit on the number
  of digits are outside this model; the endpoint's properties below use the parser only
  for the default value.)
\<close>

definition py_int :: "string \<Rightarrow> int option" where
  "py_int s =
     (case strip s of
        [] \<Rightarrow> None
      | c # cs \<Rightarrow>
          if c = CHR ''-'' then map_option (\<lambda>n. - int n) (parse_digits 0 cs)
          else if c = CHR ''+'' then map_option int (parse_digits 0 cs)
          else map_option int (parse_digits 0 (c # cs)))"

section \<open>Module-level configuration (lines 15-18)\<close>

type_synonym environ = "string \<rightharpoonup> string"

text \<open>\<^verbatim>\<open>os.getenv(key, default)\<close> and \<^verbatim>\<open>os.getenv(key)\<close>.\<close>

definition getenv_default :: "environ \<Rightarrow> string \<Rightarrow> string \<Rightarrow> string" where
  "getenv_default environ key dflt = (case environ key of None \<Rightarrow> dflt | Some v \<Rightarrow> v)"

definition getenv :: "environ \<Rightarrow> string \<Rightarrow> string option" where
  "getenv environ key = environ key"

definition JWT_ALG :: string where
  "JWT_ALG = ''HS256''"

record config =
  JWT_SECRET :: string
  JWT_EXPIRES_MIN :: int
  GOOGLE_CLIENT_ID :: "string option"

text \<open>
  The assignments at import time that read the process environment. \<^verbatim>\<open>int(...)\<close> may
  raise \<^verbatim>\<open>ValueError\<close>; the module then fails to import and no request is ever served
  (\<open>None\<close>).
\<close>

definition load_config :: "environ \<Rightarrow> config option" where
  "load_config environ =
     (case py_int (getenv_default environ ''JWT_EXPIRES_MIN'' ''43200'') of
        None \<Rightarrow> None
      | Some m \<Rightarrow>
          Some \<lparr> JWT_SECRET = getenv_default environ ''JWT_SECRET'' ''dev-secret-change-me'',
                 JWT_EXPIRES_MIN = m,
                 GOOGLE_CLIENT_ID = getenv environ ''GOOGLE_CLIENT_ID'' \<rparr>)"

section \<open>Dates\<close>

text \<open>\<^verbatim>\<open>datetime.max\<close> (9999-12-31T23:59:59.999999) in microseconds since \<^verbatim>\<open>datetime.min\<close>.\<close>

definition DATETIME_MAX :: int where
  "DATETIME_MAX = 3652059 * 86400 * 1000000 - 1"

text \<open>
  \<^verbatim>\<open>timedelta(minutes=m)\<close> in microseconds. CPython normalises to days first: a day count
  that does not fit a C \<^verbatim>\<open>int\<close>, or whose magnitude exceeds 999999999, raises
  \<^verbatim>\<open>OverflowError\<close>.
\<close>

definition timedelta_minutes :: "int \<Rightarrow> exn + int" where
  "timedelta_minutes m =
     (let days = m div 1440 in
      if days < - 2147483648 \<or> 2147483647 < days
      then Inl (OverflowError ''Python int too large to convert to C int'')
      else if days < - 999999999 \<or> 999999999 < days
      then Inl (OverflowError (''days='' @ show_int days @ ''; must have magnitude <= 999999999''))
      else Inr (m * 60000000))"

text \<open>\<^verbatim>\<open>datetime + timedelta\<close>: the result must lie between \<^verbatim>\<open>datetime.min\<close> and \<^verbatim>\<open>datetime.max\<close>.\<close>

definition datetime_add :: "int \<Rightarrow> int \<Rightarrow> exn + int" where
  "datetime_add t td =
     (if t + td < 0 \<or> DATETIME_MAX < t + td
      then Inl (OverflowError ''date value out of range'')
      else Inr (t + td))"

section \<open>The user store\<close>

text \<open>
  A MongoDB document: its \<^verbatim>\<open>_id\<close> (an \<^verbatim>\<open>ObjectId\<close>, modelled by its 24-digit hex string,
  which is what \<^verbatim>\<open>str(_id)\<close> returns) and its other fields. A collection is the list of
  its documents in natural order; a database maps collection names to collections
  (a collection that was never written is empty).
\<close>

datatype object_id = ObjectId string

fun str_oid :: "object_id \<Rightarrow> string" where
  "str_oid (ObjectId h) = h"

record document =
  doc_id :: object_id
  doc_fields :: "string \<rightharpoonup> pyval"

type_synonym collection = "document list"
type_synonym database = "string \<Rightarrow> collection"

text \<open>
  What the store keeps of a value it is sent. BSON holds a datetime as a whole number of
  milliseconds, and the driver drops the microseconds below the millisecond when it
  encodes a \<^verbatim>\<open>datetime\<close> (\<^verbatim>\<open>microsecond // 1000\<close>); a millisecond starts at a multiple of
  1000 microseconds since \<^verbatim>\<open>datetime.min\<close>. Strings and \<^verbatim>\<open>None\<close> are kept as they are.
\<close>

definition bson_millis :: "int \<Rightarrow> int" where
  "bson_millis t = t - t mod 1000"

fun bson_value :: "pyval \<Rightarrow> pyval" where
  "bson_value PNone = PNone"
| "bson_value (PStr s) = PStr s"
| "bson_value (PDatetime t) = PDatetime (bson_millis t)"

definition bson_doc :: "(string \<times> pyval) list \<Rightarrow> (string \<times> pyval) list" where
  "bson_doc kvs = map (\<lambda>(k, v). (k, bson_value v)) kvs"

text \<open>An equality filter \<^verbatim>\<open>{k1: v1, ...}\<close> matches a document that has every listed value.\<close>

definition matches :: "(string \<times> pyval) list \<Rightarrow> document \<Rightarrow> bool" where
  "matches flt d = list_all (\<lambda>(k, v). doc_fields d k = Some v) flt"

text \<open>Apply \<open>f\<close> to the first document that satisfies \<open>p\<close>.\<close>

fun update_first :: "(document \<Rightarrow> bool) \<Rightarrow> (document \<Rightarrow> document) \<Rightarrow> collection \<Rightarrow> collection" where
  "update_first p f [] = []"
| "update_first p f (d # ds) = (if p d then f d # ds else d # update_first p f ds)"

text \<open>
  \<^verbatim>\<open>update_one(flt, {"$set": s, "$setOnInsert": i}, upsert=True)\<close>: the first matching
  document gets the \<^verbatim>\<open>$set\<close> fields; when none matches, a document is inserted that has
  the filter's fields, the \<^verbatim>\<open>$set\<close> fields and the \<^verbatim>\<open>$setOnInsert\<close> fields, under a newly
  generated \<^verbatim>\<open>_id\<close>. The filter and both documents reach the store BSON-encoded.
\<close>

definition update_one_upsert ::
  "(string \<times> pyval) list \<Rightarrow> (string \<times> pyval) list \<Rightarrow> (string \<times> pyval) list \<Rightarrow>
   object_id \<Rightarrow> collection \<Rightarrow> collection" where
  "update_one_upsert flt set_doc set_on_insert new_id coll =
     (if list_ex (matches (bson_doc flt)) coll
      then update_first (matches (bson_doc flt))
             (\<lambda>d. d\<lparr>doc_fields := doc_fields d ++ map_of (bson_doc set_doc)\<rparr>) coll
      else coll @ [\<lparr>doc_id = new_id,
                    doc_fields = map_of (bson_doc flt) ++ map_of (bson_doc set_doc)
                      ++ map_of (bson_doc set_on_insert)\<rparr>])"

definition find_one :: "(string \<times> pyval) list \<Rightarrow> collection \<Rightarrow> document option" where
  "find_one flt coll = find (matches (bson_doc flt)) coll"

section \<open>The outside world of one request\<close>

type_synonym idinfo = "string \<rightharpoonup> string"

text \<open>
  What one call of \<^verbatim>\<open>auth_google\<close> gets from its collaborators:
  \<^item> \<open>verify_oauth2_token\<close>: google-auth's verifier applied to the credential and the
    audience; it returns the token's claims or raises;
  \<^item> \<open>utcnow_upsert\<close>, \<open>utcnow_token\<close>: the two readings of \<^verbatim>\<open>datetime.utcnow()\<close>
    (lines 82 and 103);
  \<^item> \<open>update_one_fault\<close>, \<open>find_one_fault\<close>: the exception pymongo raises when the store
    cannot be reached at that call (the operation then has no effect);
  \<^item> \<open>new_object_id\<close>: the \<^verbatim>\<open>_id\<close> generated if the upsert inserts;
  \<^item> \<open>jwt_encode\<close>: python-jose's \<^verbatim>\<open>jwt.encode(claims, key, algorithm)\<close>.
\<close>

record env =
  verify_oauth2_token :: "string \<Rightarrow> string option \<Rightarrow> exn + idinfo"
  utcnow_upsert :: int
  utcnow_token :: int
  update_one_fault :: "exn option"
  find_one_fault :: "exn option"
  new_object_id :: object_id
  jwt_encode :: "(string \<rightharpoonup> pyval) \<Rightarrow> string \<Rightarrow> string \<Rightarrow> exn + string"

text \<open>Calls that leave the process, in the order they are made.\<close>

datatype call = Call_verify | Call_update_one | Call_find_one | Call_jwt_encode

section \<open>The endpoint \<^verbatim>\<open>POST /auth/google\<close> (lines 58-117)\<close>

record GoogleCredential =
  credential :: string

record AuthResponse =
  token :: string
  user :: "string \<rightharpoonup> pyval"

text \<open>The message of the \<^verbatim>\<open>AttributeError\<close> raised by \<^verbatim>\<open>None.get\<close>.\<close>

definition NoneType_has_no_get :: string where
  "NoneType_has_no_get =
     [CHR 0x27] @ ''NoneType'' @ [CHR 0x27] @ '' object has no attribute '' @
     [CHR 0x27] @ ''get'' @ [CHR 0x27]"

text \<open>The filter \<^verbatim>\<open>{"email": email}\<close> of lines 84 and 99.\<close>

definition email_filter :: "string \<Rightarrow> (string \<times> pyval) list" where
  "email_filter email = [(''email'', PStr email)]"

text \<open>The \<^verbatim>\<open>$set\<close> document of lines 86-93 and the \<^verbatim>\<open>$setOnInsert\<close> document of line 94.\<close>

definition set_fields ::
  "string \<Rightarrow> string option \<Rightarrow> string option \<Rightarrow> string option \<Rightarrow> int \<Rightarrow> (string \<times> pyval) list" where
  "set_fields email name picture sub now =
     [(''email'', PStr email),
      (''name'', opt_val name),
      (''picture'', opt_val picture),
      (''provider'', PStr ''google''),
      (''google_sub'', opt_val sub),
      (''updated_at'', PDatetime now)]"

definition set_on_insert_fields :: "int \<Rightarrow> (string \<times> pyval) list" where
  "set_on_insert_fields now = [(''created_at'', PDatetime now)]"

text \<open>Lines 81-100: the upsert and the re-read, on the \<^verbatim>\<open>user\<close> collection.\<close>

definition upsert_user ::
  "env \<Rightarrow> string \<Rightarrow> string option \<Rightarrow> string option \<Rightarrow> string option \<Rightarrow>
   collection \<Rightarrow> (exn + string) \<times> collection \<times> call list" where
  "upsert_user e email name picture sub users =
     (let now = utcnow_upsert e in
      case update_one_fault e of
        Some x \<Rightarrow> (Inl x, users, [Call_update_one])
      | None \<Rightarrow>
          (let users' = update_one_upsert (email_filter email)
                 (set_fields email name picture sub now) (set_on_insert_fields now)
                 (new_object_id e) users
           in case find_one_fault e of
                Some x \<Rightarrow> (Inl x, users', [Call_update_one, Call_find_one])
              | None \<Rightarrow>
                  (case find_one (email_filter email) users' of
                     None \<Rightarrow>
                       (Inl (AttributeError NoneType_has_no_get),
                        users', [Call_update_one, Call_find_one])
                   | Some doc \<Rightarrow>
                       (Inr (str_oid (doc_id doc)), users', [Call_update_one, Call_find_one]))))"

text \<open>The claims dictionary of line 104.\<close>

definition token_claims :: "string \<Rightarrow> string \<Rightarrow> int \<Rightarrow> (string \<rightharpoonup> pyval)" where
  "token_claims user_id email exp =
     [''sub'' \<mapsto> PStr user_id, ''email'' \<mapsto> PStr email, ''exp'' \<mapsto> PDatetime exp]"

text \<open>Lines 103-104: the expiry and the signed token.\<close>

definition mint_token :: "config \<Rightarrow> env \<Rightarrow> string \<Rightarrow> string \<Rightarrow> (exn + string) \<times> call list" where
  "mint_token cfg e user_id email =
     (case timedelta_minutes (JWT_EXPIRES_MIN cfg) of
        Inl x \<Rightarrow> (Inl x, [])
      | Inr td \<Rightarrow>
          (case datetime_add (utcnow_token e) td of
             Inl x \<Rightarrow> (Inl x, [])
           | Inr exp \<Rightarrow>
               (jwt_encode e (token_claims user_id email exp) (JWT_SECRET cfg) JWT_ALG,
                [Call_jwt_encode])))"

text \<open>The \<^verbatim>\<open>user\<close> dictionary of lines 108-114.\<close>

definition user_view ::
  "string \<Rightarrow> string \<Rightarrow> string option \<Rightarrow> string option \<Rightarrow> (string \<rightharpoonup> pyval)" where
  "user_view user_id email name picture =
     [''id'' \<mapsto> PStr user_id,
      ''email'' \<mapsto> PStr email,
      ''name'' \<mapsto> opt_val name,
      ''picture'' \<mapsto> opt_val picture,
      ''provider'' \<mapsto> PStr ''google'']"

text \<open>
  Lines 66-115, the body of the \<^verbatim>\<open>try\<close>: the exception raised or the dictionary returned,
  the database afterwards and the calls made.
\<close>

definition auth_google_try ::
  "config \<Rightarrow> env \<Rightarrow> database \<Rightarrow> string \<Rightarrow> (exn + AuthResponse) \<times> database \<times> call list" where
  "auth_google_try cfg e db cred =
     (case verify_oauth2_token e cred (GOOGLE_CLIENT_ID cfg) of
        Inl x \<Rightarrow> (Inl x, db, [Call_verify])
      | Inr idinfo \<Rightarrow>
          if idinfo ''iss'' \<notin> set [Some ''accounts.google.com'', Some ''https://accounts.google.com'']
          then (Inl (ValueError ''Wrong issuer.''), db, [Call_verify])
          else
            (let email = idinfo ''email'';
                 name = idinfo ''name'';
                 picture = idinfo ''picture'';
                 sub = idinfo ''sub''
             in if py_not email
                then (Inl (ValueError ''No email in Google token''), db, [Call_verify])
                else
                  (case email of
                     None \<Rightarrow> (Inl (ValueError ''No email in Google token''), db, [Call_verify])
                   | Some em \<Rightarrow>
                       (case upsert_user e em name picture sub (db ''user'') of
                          (Inl x, users', cs) \<Rightarrow>
                            (Inl x, db(''user'' := users'), Call_verify # cs)
                        | (Inr user_id, users', cs) \<Rightarrow>
                            (case mint_token cfg e user_id em of
                               (Inl x, cs') \<Rightarrow>
                                 (Inl x, db(''user'' := users'), Call_verify # cs @ cs')
                             | (Inr tok, cs') \<Rightarrow>
                                 (Inr \<lparr> token = tok,
                                        user = user_view user_id em name picture \<rparr>,
                                  db(''user'' := users'), Call_verify # cs @ cs'))))))"

text \<open>
  What one request leaves behind: the HTTP error or the response body, the database
  handle afterwards (\<open>None\<close>: \<^verbatim>\<open>db is None\<close>) and the calls made to the collaborators.
\<close>

record outcome =
  result :: "http_exception + AuthResponse"
  db_after :: "database option"
  calls :: "call list"

definition auth_google :: "config \<Rightarrow> env \<Rightarrow> database option \<Rightarrow> GoogleCredential \<Rightarrow> outcome" where
  "auth_google cfg e db payload =
     (case db of
        None \<Rightarrow>
          \<lparr> result = Inl (HTTPException 500 ''Database not configured''),
            db_after = None, calls = [] \<rparr>
      | Some dbh \<Rightarrow>
          if credential payload = []
          then \<lparr> result = Inl (HTTPException 400 ''Missing credential''),
                 db_after = Some dbh, calls = [] \<rparr>
          else
            (case auth_google_try cfg e dbh (credential payload) of
               (Inl x, dbh', cs) \<Rightarrow>
                 \<lparr> result = Inl (HTTPException 401 (''Invalid Google token: '' @ str_exn x)),
                   db_after = Some dbh', calls = cs \<rparr>
             | (Inr r, dbh', cs) \<Rightarrow>
                 \<lparr> result = Inr r, db_after = Some dbh', calls = cs \<rparr>))"

text \<open>A sequence of requests served one after the other on the same database.\<close>

fun serve :: "config \<Rightarrow> database option \<Rightarrow> (env \<times> GoogleCredential) list \<Rightarrow> outcome list" where
  "serve cfg db [] = []"
| "serve cfg db ((e, payload) # rs) =
     (let out = auth_google cfg e db payload in out # serve cfg (db_after out) rs)"

section \<open>Notions used to state the properties\<close>

text \<open>The user collection after the upsert of lines 83-97, for verified claims \<open>idinfo\<close>.\<close>

abbreviation upserted :: "env \<Rightarrow> idinfo \<Rightarrow> string \<Rightarrow> collection \<Rightarrow> collection" where
  "upserted e idinfo em users \<equiv>
     update_one_upsert (email_filter em)
       (set_fields em (idinfo ''name'') (idinfo ''picture'') (idinfo ''sub'') (utcnow_upsert e))
       (set_on_insert_fields (utcnow_upsert e)) (new_object_id e) users"

text \<open>
  A record belongs to an email when its \<^verbatim>\<open>email\<close> field holds that string. This is said
  of the stored document alone, without the filter the endpoint sends to the store.
\<close>

definition has_email :: "string \<Rightarrow> document \<Rightarrow> bool" where
  "has_email email d = (doc_fields d ''email'' = Some (PStr email))"

text \<open>The records of a collection that belong to an email, and the other ones.\<close>

definition records_for :: "string \<Rightarrow> collection \<Rightarrow> document list" where
  "records_for email users = filter (has_email email) users"

definition records_of_others :: "string \<Rightarrow> collection \<Rightarrow> document list" where
  "records_of_others email users = filter (\<lambda>d. \<not> has_email email d) users"

text \<open>The user collection a request leaves behind.\<close>

definition users_after :: "outcome \<Rightarrow> collection" where
  "users_after out = (case db_after out of None \<Rightarrow> [] | Some db \<Rightarrow> db ''user'')"

text \<open>A request succeeded, and its response carries the given email.\<close>

definition succeeds_for :: "string \<Rightarrow> outcome \<Rightarrow> bool" where
  "succeeds_for email out =
     (case result out of
        Inl _ \<Rightarrow> False
      | Inr r \<Rightarrow> user r ''email'' = Some (PStr email))"

text \<open>The identifier a successful request returned (\<open>None\<close> for a failed one).\<close>

definition returned_id :: "outcome \<Rightarrow> pyval option" where
  "returned_id out = (case result out of Inl _ \<Rightarrow> None | Inr r \<Rightarrow> user r ''id'')"

section \<open>Example inputs\<close>

definition ex_cfg :: config where
  "ex_cfg = \<lparr> JWT_SECRET = ''dev-secret-change-me'', JWT_EXPIRES_MIN = 43200,
              GOOGLE_CLIENT_ID = Some ''client-1'' \<rparr>"

text \<open>A verifier outcome: claims for \<^verbatim>\<open>alice@example.com\<close> issued by Google.\<close>

definition alice_idinfo :: idinfo where
  "alice_idinfo =
     [''iss'' \<mapsto> ''accounts.google.com'', ''email'' \<mapsto> ''alice@example.com'',
      ''name'' \<mapsto> ''Alice'', ''picture'' \<mapsto> ''http://p/a.png'', ''sub'' \<mapsto> ''g-1'']"

definition ex_env :: env where
  "ex_env = \<lparr> verify_oauth2_token = (\<lambda>c a. Inr alice_idinfo),
              utcnow_upsert = 1000, utcnow_token = 1001,
              update_one_fault = None, find_one_fault = None,
              new_object_id = ObjectId ''65a000000000000000000001'',
              jwt_encode = (\<lambda>c k a. Inr ''signed-token'') \<rparr>"

definition empty_db :: database where
  "empty_db = (\<lambda>_. [])"

definition empty_payload :: GoogleCredential where
  "empty_payload = \<lparr> credential = [] \<rparr>"

definition ex_payload :: GoogleCredential where
  "ex_payload = \<lparr> credential = ''eyJhbGciOi'' \<rparr>"

definition alice_id :: string where
  "alice_id = ''65a000000000000000000001''"

definition ex_response :: AuthResponse where
  "ex_response =
     \<lparr> token = ''signed-token'',
       user = user_view alice_id ''alice@example.com'' (Some ''Alice'') (Some ''http://p/a.png'') \<rparr>"

text \<open>The verifier returns claims issued by \<^verbatim>\<open>evil.com\<close>.\<close>

definition evil_idinfo :: idinfo where
  "evil_idinfo = [''iss'' \<mapsto> ''evil.com'', ''email'' \<mapsto> ''alice@example.com'']"

definition evil_env :: env where
  "evil_env = ex_env \<lparr> verify_oauth2_token := (\<lambda>c a. Inr evil_idinfo) \<rparr>"

text \<open>
  The verifier rejects the credential: a token that names the issuer \<^verbatim>\<open>evil.com\<close> and whose
  signature does not verify.
\<close>

definition forged_env :: env where
  "forged_env =
     ex_env \<lparr> verify_oauth2_token :=
                (\<lambda>c a. Inl (ValueError ''Could not verify token signature.'')) \<rparr>"

text \<open>The verifier returns claims without an email.\<close>

definition anon_idinfo :: idinfo where
  "anon_idinfo = [''iss'' \<mapsto> ''https://accounts.google.com'', ''sub'' \<mapsto> ''g-2'']"

definition anon_env :: env where
  "anon_env = ex_env \<lparr> verify_oauth2_token := (\<lambda>c a. Inr anon_idinfo) \<rparr>"

text \<open>The store stops answering: at the upsert, or after it at the re-read.\<close>

definition down_at_update :: env where
  "down_at_update =
     ex_env \<lparr> update_one_fault := Some (LibraryError ''localhost:27017: timed out'') \<rparr>"

definition down_at_find :: env where
  "down_at_find =
     ex_env \<lparr> find_one_fault := Some (LibraryError ''localhost:27017: timed out'') \<rparr>"

text \<open>
  The first sign-in of the account at a time that is not a whole millisecond
  (1250 microseconds).
\<close>

definition ex_env1 :: env where
  "ex_env1 = ex_env \<lparr> utcnow_upsert := 1250, utcnow_token := 1260 \<rparr>"

text \<open>
  A later sign-in of the same account: the claims carry neither name nor picture, the
  clock has moved on, and another \<^verbatim>\<open>_id\<close> would be generated on insert.
\<close>

definition alice_idinfo2 :: idinfo where
  "alice_idinfo2 =
     [''iss'' \<mapsto> ''https://accounts.google.com'', ''email'' \<mapsto> ''alice@example.com'',
      ''sub'' \<mapsto> ''g-1'']"

definition ex_env2 :: env where
  "ex_env2 = \<lparr> verify_oauth2_token = (\<lambda>c a. Inr alice_idinfo2),
               utcnow_upsert = 5250, utcnow_token = 5300,
               update_one_fault = None, find_one_fault = None,
               new_object_id = ObjectId ''65a000000000000000000002'',
               jwt_encode = (\<lambda>c k a. Inr ''signed-token-2'') \<rparr>"

definition ex_reqs :: "(env \<times> GoogleCredential) list" where
  "ex_reqs = [(ex_env1, ex_payload), (ex_env2, ex_payload)]"

text \<open>The record the first sign-in creates, and the collection holding it.\<close>

definition alice_doc :: document where
  "alice_doc =
     \<lparr> doc_id = ObjectId alice_id,
       doc_fields = map_of (email_filter ''alice@example.com'')
         ++ map_of (set_fields ''alice@example.com'' (Some ''Alice'') (Some ''http://p/a.png'')
                      (Some ''g-1'') 1000)
         ++ map_of (set_on_insert_fields 1000) \<rparr>"

definition alice_db :: database where
  "alice_db = empty_db(''user'' := [alice_doc])"

text \<open>The record of another user, and collections in which it comes first.\<close>

definition bob_doc :: document where
  "bob_doc =
     \<lparr> doc_id = ObjectId ''65a000000000000000000000'',
       doc_fields =
         [''email'' \<mapsto> PStr ''bob@example.com'', ''name'' \<mapsto> PStr ''Bob'',
          ''picture'' \<mapsto> PNone, ''provider'' \<mapsto> PStr ''google'',
          ''google_sub'' \<mapsto> PStr ''g-0'', ''updated_at'' \<mapsto> PDatetime 0,
          ''created_at'' \<mapsto> PDatetime 0] \<rparr>"

definition bob_db :: database where
  "bob_db = empty_db(''user'' := [bob_doc])"

definition both_db :: database where
  "both_db = empty_db(''user'' := [bob_doc, alice_doc])"

text \<open>The record of the account after the later sign-in.\<close>

definition alice_doc2 :: document where
  "alice_doc2 =
     \<lparr> doc_id = ObjectId alice_id,
       doc_fields =
         [''email'' \<mapsto> PStr ''alice@example.com'', ''name'' \<mapsto> PNone,
          ''picture'' \<mapsto> PNone, ''provider'' \<mapsto> PStr ''google'',
          ''google_sub'' \<mapsto> PStr ''g-1'', ''updated_at'' \<mapsto> PDatetime 5000,
          ''created_at'' \<mapsto> PDatetime 1000] \<rparr>"

text \<open>The response to the later sign-in.\<close>

definition ex_response2 :: AuthResponse where
  "ex_response2 =
     \<lparr> token = ''signed-token-2'',
       user = user_view alice_id ''alice@example.com'' None None \<rparr>"

section \<open>The guards in front of the verification\<close>

text \<open>
  C9. The check \<^verbatim>\<open>db is None\<close> comes first: with an unconfigured database handle every
  request, also one whose credential is empty, gets the response 500 "Database not
  configured", no collaborator is called, and the response 400 "Missing credential" is
  not produced.
\<close>

theorem db_unconfigured_checked_first:
  "auth_google cfg e None payload =
     \<lparr> result = Inl (HTTPException 500 ''Database not configured''),
       db_after = None, calls = [] \<rparr>
   \<and> result (auth_google cfg e None empty_payload)
       = Inl (HTTPException 500 ''Database not configured'')
   \<and> result (auth_google cfg e None empty_payload)
       \<noteq> Inl (HTTPException 400 ''Missing credential'')"
  by (simp add: auth_google_def)

section \<open>Successful requests, step by step\<close>

lemma upsert_user_success:
  assumes "upsert_user e em name picture sub users = (Inr uid, users', cs)"
  shows "update_one_fault e = None \<and> find_one_fault e = None \<and>
     users' = update_one_upsert (email_filter em)
                (set_fields em name picture sub (utcnow_upsert e))
                (set_on_insert_fields (utcnow_upsert e)) (new_object_id e) users \<and>
     (\<exists>doc. find_one (email_filter em) users' = Some doc \<and> uid = str_oid (doc_id doc)) \<and>
     cs = [Call_update_one, Call_find_one]"
  using assms
  by (auto simp: upsert_user_def Let_def split: option.splits)

lemma mint_token_success:
  assumes "mint_token cfg e uid em = (Inr tok, cs)"
  shows "\<exists>td exp. timedelta_minutes (JWT_EXPIRES_MIN cfg) = Inr td \<and>
     datetime_add (utcnow_token e) td = Inr exp \<and>
     jwt_encode e (token_claims uid em exp) (JWT_SECRET cfg) JWT_ALG = Inr tok \<and>
     cs = [Call_jwt_encode]"
  using assms
  by (auto simp: mint_token_def split: sum.splits)

lemma auth_google_try_success:
  assumes "auth_google_try cfg e db cred = (Inr r, db', cs)"
  shows "\<exists>idinfo em uid users' cs1 cs2.
     verify_oauth2_token e cred (GOOGLE_CLIENT_ID cfg) = Inr idinfo \<and>
     idinfo ''iss'' \<in> {Some ''accounts.google.com'', Some ''https://accounts.google.com''} \<and>
     idinfo ''email'' = Some em \<and> em \<noteq> [] \<and>
     upsert_user e em (idinfo ''name'') (idinfo ''picture'') (idinfo ''sub'') (db ''user'')
       = (Inr uid, users', cs1) \<and>
     mint_token cfg e uid em = (Inr (token r), cs2) \<and>
     user r = user_view uid em (idinfo ''name'') (idinfo ''picture'') \<and>
     db' = db(''user'' := users') \<and> cs = Call_verify # cs1 @ cs2"
  using assms
  unfolding auth_google_try_def Let_def
  by (auto split: sum.splits if_splits option.splits prod.splits)

lemma auth_google_result_Inr:
  assumes "result (auth_google cfg e db payload) = Inr r"
  shows "\<exists>dbh dbh' cs. db = Some dbh \<and> credential payload \<noteq> [] \<and>
     auth_google_try cfg e dbh (credential payload) = (Inr r, dbh', cs) \<and>
     db_after (auth_google cfg e db payload) = Some dbh' \<and>
     calls (auth_google cfg e db payload) = cs"
  using assms
  by (auto simp: auth_google_def split: option.splits if_splits sum.splits prod.splits)

lemma auth_google_success:
  assumes "result (auth_google cfg e db payload) = Inr r"
  obtains dbh idinfo em doc td exp where
    "db = Some dbh" and "credential payload \<noteq> []"
    and "verify_oauth2_token e (credential payload) (GOOGLE_CLIENT_ID cfg) = Inr idinfo"
    and "idinfo ''iss'' \<in> {Some ''accounts.google.com'', Some ''https://accounts.google.com''}"
    and "idinfo ''email'' = Some em" and "em \<noteq> []"
    and "update_one_fault e = None" and "find_one_fault e = None"
    and "db_after (auth_google cfg e db payload)
           = Some (dbh(''user'' := upserted e idinfo em (dbh ''user'')))"
    and "find_one (email_filter em) (upserted e idinfo em (dbh ''user'')) = Some doc"
    and "timedelta_minutes (JWT_EXPIRES_MIN cfg) = Inr td"
    and "datetime_add (utcnow_token e) td = Inr exp"
    and "jwt_encode e (token_claims (str_oid (doc_id doc)) em exp) (JWT_SECRET cfg) JWT_ALG
           = Inr (token r)"
    and "user r = user_view (str_oid (doc_id doc)) em (idinfo ''name'') (idinfo ''picture'')"
    and "calls (auth_google cfg e db payload)
           = [Call_verify, Call_update_one, Call_find_one, Call_jwt_encode]"
proof -
  from auth_google_result_Inr [OF assms] obtain dbh dbh' cs where
    a: "db = Some dbh" "credential payload \<noteq> []"
       "auth_google_try cfg e dbh (credential payload) = (Inr r, dbh', cs)"
       "db_after (auth_google cfg e db payload) = Some dbh'"
       "calls (auth_google cfg e db payload) = cs"
    by blast
  from auth_google_try_success [OF a(3)] obtain idinfo em uid users' cs1 cs2 where
    b: "verify_oauth2_token e (credential payload) (GOOGLE_CLIENT_ID cfg) = Inr idinfo"
       "idinfo ''iss'' \<in> {Some ''accounts.google.com'', Some ''https://accounts.google.com''}"
       "idinfo ''email'' = Some em" "em \<noteq> []"
       "upsert_user e em (idinfo ''name'') (idinfo ''picture'') (idinfo ''sub'') (dbh ''user'')
          = (Inr uid, users', cs1)"
       "mint_token cfg e uid em = (Inr (token r), cs2)"
       "user r = user_view uid em (idinfo ''name'') (idinfo ''picture'')"
       "dbh' = dbh(''user'' := users')" "cs = Call_verify # cs1 @ cs2"
    by blast
  from upsert_user_success [OF b(5)] obtain doc where
    c: "update_one_fault e = None" "find_one_fault e = None"
       "users' = upserted e idinfo em (dbh ''user'')"
       "find_one (email_filter em) users' = Some doc" "uid = str_oid (doc_id doc)"
       "cs1 = [Call_update_one, Call_find_one]"
    by blast
  from mint_token_success [OF b(6)] obtain td exp where
    d: "timedelta_minutes (JWT_EXPIRES_MIN cfg) = Inr td"
       "datetime_add (utcnow_token e) td = Inr exp"
       "jwt_encode e (token_claims uid em exp) (JWT_SECRET cfg) JWT_ALG = Inr (token r)"
       "cs2 = [Call_jwt_encode]"
    by blast
  show thesis
    by (rule that [of dbh idinfo em doc td exp]) (use a b c d in simp_all)
qed

lemma timedelta_minutes_Inr: "timedelta_minutes m = Inr td \<Longrightarrow> td = m * 60000000"
  by (auto simp: timedelta_minutes_def Let_def split: if_splits)

lemma datetime_add_Inr: "datetime_add t td = Inr x \<Longrightarrow> x = t + td"
  by (auto simp: datetime_add_def split: if_splits)

lemma dom_token_claims: "dom (token_claims uid em exp) = {''sub'', ''email'', ''exp''}"
  by (auto simp: token_claims_def)

lemma dom_user_view:
  "dom (user_view uid em name picture) = {''id'', ''email'', ''name'', ''picture'', ''provider''}"
  by (auto simp: user_view_def)

lemma py_int_default: "py_int ''43200'' = Some 43200"
  by (simp add: py_int_def strip_def is_space_def is_digit_def digit_val_def)

section \<open>Evaluating the examples\<close>

lemmas eval_defs =
  auth_google_def auth_google_try_def upsert_user_def mint_token_def update_one_upsert_def
  find_one_def matches_def bson_doc_def bson_millis_def
  email_filter_def set_fields_def set_on_insert_fields_def
  timedelta_minutes_def datetime_add_def DATETIME_MAX_def JWT_ALG_def Let_def

lemma ex_success:
  "result (auth_google ex_cfg ex_env (Some empty_db) ex_payload) = Inr ex_response"
  by (simp add: eval_defs ex_cfg_def ex_env_def empty_db_def ex_payload_def ex_response_def
      alice_idinfo_def alice_id_def)

section \<open>The token\<close>

text \<open>
  C2. After a successful authentication the token is what \<^verbatim>\<open>jwt.encode\<close> returned for the
  claims dictionary with exactly the keys \<^verbatim>\<open>sub\<close>, \<^verbatim>\<open>email\<close> and \<^verbatim>\<open>exp\<close>, signed with
  \<^verbatim>\<open>JWT_SECRET\<close> and the algorithm \<^verbatim>\<open>HS256\<close>; \<^verbatim>\<open>sub\<close> is \<^verbatim>\<open>str(_id)\<close> of the record found under
  the verified email in the user collection after the upsert (not the \<^verbatim>\<open>sub\<close> of the
  verified claims), and \<^verbatim>\<open>email\<close> is the verified email.
\<close>

theorem token_claims_and_signature:
  assumes "result (auth_google cfg e db payload) = Inr r"
  shows "\<exists>dbh idinfo em doc exp.
     db = Some dbh \<and>
     verify_oauth2_token e (credential payload) (GOOGLE_CLIENT_ID cfg) = Inr idinfo \<and>
     idinfo ''email'' = Some em \<and>
     find_one (email_filter em) (users_after (auth_google cfg e db payload)) = Some doc \<and>
     jwt_encode e (token_claims (str_oid (doc_id doc)) em exp) (JWT_SECRET cfg) ''HS256''
       = Inr (token r) \<and>
     dom (token_claims (str_oid (doc_id doc)) em exp) = {''sub'', ''email'', ''exp''} \<and>
     token_claims (str_oid (doc_id doc)) em exp ''sub'' = Some (PStr (str_oid (doc_id doc))) \<and>
     token_claims (str_oid (doc_id doc)) em exp ''email'' = Some (PStr em)"
proof (rule auth_google_success [OF assms])
  fix dbh idinfo em doc td exp
  assume h: "db = Some dbh"
    "verify_oauth2_token e (credential payload) (GOOGLE_CLIENT_ID cfg) = Inr idinfo"
    "idinfo ''email'' = Some em"
    "db_after (auth_google cfg e db payload)
       = Some (dbh(''user'' := upserted e idinfo em (dbh ''user'')))"
    "find_one (email_filter em) (upserted e idinfo em (dbh ''user'')) = Some doc"
    "jwt_encode e (token_claims (str_oid (doc_id doc)) em exp) (JWT_SECRET cfg) JWT_ALG
       = Inr (token r)"
  have u: "users_after (auth_google cfg e db payload) = upserted e idinfo em (dbh ''user'')"
    by (simp add: users_after_def h(4))
  have c: "token_claims (str_oid (doc_id doc)) em exp ''sub'' = Some (PStr (str_oid (doc_id doc)))"
      "token_claims (str_oid (doc_id doc)) em exp ''email'' = Some (PStr em)"
    by (simp_all add: token_claims_def)
  show ?thesis
    apply (rule exI [of _ dbh], rule exI [of _ idinfo], rule exI [of _ em])
    apply (rule exI [of _ doc], rule exI [of _ exp])
    using h u c dom_token_claims [of "str_oid (doc_id doc)" em exp]
    by (simp add: JWT_ALG_def)
qed

theorem token_claims_and_signature_witness:
  "result (auth_google ex_cfg ex_env (Some empty_db) ex_payload) = Inr ex_response \<and>
   (\<exists>dbh idinfo em doc exp.
     Some empty_db = Some dbh \<and>
     verify_oauth2_token ex_env (credential ex_payload) (GOOGLE_CLIENT_ID ex_cfg) = Inr idinfo \<and>
     idinfo ''email'' = Some em \<and>
     find_one (email_filter em)
       (users_after (auth_google ex_cfg ex_env (Some empty_db) ex_payload)) = Some doc \<and>
     jwt_encode ex_env (token_claims (str_oid (doc_id doc)) em exp) (JWT_SECRET ex_cfg) ''HS256''
       = Inr (token ex_response) \<and>
     dom (token_claims (str_oid (doc_id doc)) em exp) = {''sub'', ''email'', ''exp''} \<and>
     token_claims (str_oid (doc_id doc)) em exp ''sub'' = Some (PStr (str_oid (doc_id doc))) \<and>
     token_claims (str_oid (doc_id doc)) em exp ''email'' = Some (PStr em))"
  using ex_success token_claims_and_signature [OF ex_success] by (rule conjI)

text \<open>
  C3. The \<^verbatim>\<open>exp\<close> claim of the token of a successful authentication is the reading of the
  clock at line 103 of that same call plus \<^verbatim>\<open>JWT_EXPIRES_MIN\<close> minutes (60000000
  microseconds each); every call computes its own. When the environment variable
  \<^verbatim>\<open>JWT_EXPIRES_MIN\<close> is not set, the duration is 43200 minutes, which is 30 days.
\<close>

theorem token_expiry:
  assumes "result (auth_google cfg e db payload) = Inr r"
  shows "(\<exists>uid em.
            jwt_encode e
              (token_claims uid em (utcnow_token e + JWT_EXPIRES_MIN cfg * 60000000))
              (JWT_SECRET cfg) JWT_ALG = Inr (token r) \<and>
            token_claims uid em (utcnow_token e + JWT_EXPIRES_MIN cfg * 60000000) ''exp''
              = Some (PDatetime (utcnow_token e + JWT_EXPIRES_MIN cfg * 60000000))) \<and>
         (\<forall>environ. environ ''JWT_EXPIRES_MIN'' = None \<longrightarrow>
            map_option JWT_EXPIRES_MIN (load_config environ) = Some 43200) \<and>
         (43200 :: int) = 30 * 24 * 60"
proof (rule auth_google_success [OF assms])
  fix dbh idinfo em doc td exp
  assume h: "timedelta_minutes (JWT_EXPIRES_MIN cfg) = Inr td"
    "datetime_add (utcnow_token e) td = Inr exp"
    "jwt_encode e (token_claims (str_oid (doc_id doc)) em exp) (JWT_SECRET cfg) JWT_ALG
       = Inr (token r)"
  have "exp = utcnow_token e + JWT_EXPIRES_MIN cfg * 60000000"
    using timedelta_minutes_Inr [OF h(1)] datetime_add_Inr [OF h(2)] by simp
  with h(3) have "jwt_encode e
              (token_claims (str_oid (doc_id doc)) em
                 (utcnow_token e + JWT_EXPIRES_MIN cfg * 60000000))
              (JWT_SECRET cfg) JWT_ALG = Inr (token r)"
    by simp
  moreover have "token_claims (str_oid (doc_id doc)) em
       (utcnow_token e + JWT_EXPIRES_MIN cfg * 60000000) ''exp''
     = Some (PDatetime (utcnow_token e + JWT_EXPIRES_MIN cfg * 60000000))"
    by (simp add: token_claims_def)
  ultimately have 1: "\<exists>uid em.
            jwt_encode e
              (token_claims uid em (utcnow_token e + JWT_EXPIRES_MIN cfg * 60000000))
              (JWT_SECRET cfg) JWT_ALG = Inr (token r) \<and>
            token_claims uid em (utcnow_token e + JWT_EXPIRES_MIN cfg * 60000000) ''exp''
              = Some (PDatetime (utcnow_token e + JWT_EXPIRES_MIN cfg * 60000000))"
    by (intro exI conjI)
  have 2: "\<forall>environ. environ ''JWT_EXPIRES_MIN'' = None \<longrightarrow>
            map_option JWT_EXPIRES_MIN (load_config environ) = Some 43200"
    by (simp add: load_config_def getenv_default_def py_int_default)
  have 3: "(43200 :: int) = 30 * 24 * 60"
    by simp
  from 1 2 3 show ?thesis by (intro conjI)
qed

theorem token_expiry_witness:
  "result (auth_google ex_cfg ex_env (Some empty_db) ex_payload) = Inr ex_response \<and>
   (\<exists>uid em.
      jwt_encode ex_env (token_claims uid em (1001 + 43200 * 60000000))
        ''dev-secret-change-me'' JWT_ALG = Inr (token ex_response) \<and>
      token_claims uid em (1001 + 43200 * 60000000) ''exp''
        = Some (PDatetime 2592000001001)) \<and>
   Map.empty ''JWT_EXPIRES_MIN'' = (None :: string option) \<and>
   map_option JWT_EXPIRES_MIN (load_config Map.empty) = Some 43200"
proof -
  note t = token_expiry [OF ex_success]
  have a: "\<exists>uid em.
      jwt_encode ex_env (token_claims uid em (1001 + 43200 * 60000000))
        ''dev-secret-change-me'' JWT_ALG = Inr (token ex_response) \<and>
      token_claims uid em (1001 + 43200 * 60000000) ''exp''
        = Some (PDatetime 2592000001001)"
    using conjunct1 [OF t] by (simp add: ex_env_def ex_cfg_def)
  have b: "map_option JWT_EXPIRES_MIN (load_config Map.empty) = Some 43200"
    using conjunct1 [OF conjunct2 [OF t]] by simp
  from ex_success a b show ?thesis by simp
qed

section \<open>Rejected requests\<close>

lemmas ex_defs =
  ex_cfg_def ex_env_def empty_db_def ex_payload_def empty_payload_def alice_idinfo_def
  alice_id_def evil_env_def evil_idinfo_def forged_env_def anon_env_def anon_idinfo_def
  down_at_update_def down_at_find_def

text \<open>
  C6, as stated, fails when the database handle is unconfigured: the request with the
  empty credential then gets 500 "Database not configured", not 400 "Missing credential".
\<close>

theorem empty_credential_unconfigured_counterexample:
  "credential empty_payload = [] \<and>
   result (auth_google ex_cfg ex_env None empty_payload)
     = Inl (HTTPException 500 ''Database not configured'') \<and>
   result (auth_google ex_cfg ex_env None empty_payload)
     \<noteq> Inl (HTTPException 400 ''Missing credential'')"
  by (simp add: auth_google_def empty_payload_def)

text \<open>
  C6, amended. While the database handle is configured, a request whose credential is
  empty fails with 400 "Missing credential" (a status other than the 401 of a failed
  verification), the database is left as it was, and neither the verifier nor any other
  collaborator is called. While the handle is unconfigured, the same request gets the 500
  response "Database not configured" instead.
\<close>

theorem empty_credential_rejected:
  assumes "credential payload = []"
  shows "auth_google cfg e (Some dbh) payload =
           \<lparr> result = Inl (HTTPException 400 ''Missing credential''),
             db_after = Some dbh, calls = [] \<rparr> \<and>
         status_code (HTTPException 400 ''Missing credential'') \<noteq> 401 \<and>
         result (auth_google cfg e None payload)
           = Inl (HTTPException 500 ''Database not configured'')"
  using assms by (simp add: auth_google_def)

theorem empty_credential_rejected_witness:
  "credential empty_payload = [] \<and>
   auth_google ex_cfg ex_env (Some empty_db) empty_payload =
     \<lparr> result = Inl (HTTPException 400 ''Missing credential''),
       db_after = Some empty_db, calls = [] \<rparr> \<and>
   status_code (HTTPException 400 ''Missing credential'') \<noteq> 401 \<and>
   result (auth_google ex_cfg ex_env None empty_payload)
     = Inl (HTTPException 500 ''Database not configured'')"
proof -
  have h: "credential empty_payload = []"
    by (simp add: empty_payload_def)
  from h empty_credential_rejected [OF h, of ex_cfg ex_env empty_db] show ?thesis
    by (rule conjI)
qed

text \<open>
  C5, as stated, fails for a credential whose signature does not verify. The verifier is
  called first (line 68) and raises; the issuer check of line 70 is never reached. Such a
  credential, whatever issuer it names, is answered with the verifier's reason and not
  with "Wrong issuer.".
\<close>

theorem wrong_issuer_bad_signature_counterexample:
  "verify_oauth2_token forged_env (credential ex_payload) (GOOGLE_CLIENT_ID ex_cfg)
     = Inl (ValueError ''Could not verify token signature.'') \<and>
   result (auth_google ex_cfg forged_env (Some empty_db) ex_payload)
     = Inl (HTTPException 401 ''Invalid Google token: Could not verify token signature.'') \<and>
   result (auth_google ex_cfg forged_env (Some empty_db) ex_payload)
     \<noteq> Inl (HTTPException 401 ''Invalid Google token: Wrong issuer.'')"
  by (simp add: auth_google_def auth_google_try_def forged_env_def ex_payload_def)

text \<open>
  C5, amended. When the verifier returns claims for the submitted credential and their
  issuer is neither \<^verbatim>\<open>accounts.google.com\<close> nor \<^verbatim>\<open>https://accounts.google.com\<close>, the request
  fails with \<^verbatim>\<open>ValueError("Wrong issuer.")\<close>, surfaced as the 401 response "Invalid Google
  token: Wrong issuer.". When the verifier raises instead (for a signature that does not
  verify, say), the request fails with the same 401 status and the verifier's reason,
  whatever issuer the credential names. In both cases the database is unchanged and the
  only collaborator called is the verifier.
\<close>

theorem wrong_issuer_rejected:
  assumes "credential payload \<noteq> []"
  shows "(\<forall>idinfo.
            verify_oauth2_token e (credential payload) (GOOGLE_CLIENT_ID cfg) = Inr idinfo \<longrightarrow>
            idinfo ''iss'' \<noteq> Some ''accounts.google.com'' \<longrightarrow>
            idinfo ''iss'' \<noteq> Some ''https://accounts.google.com'' \<longrightarrow>
            auth_google cfg e (Some dbh) payload =
              \<lparr> result = Inl (HTTPException 401 ''Invalid Google token: Wrong issuer.''),
                db_after = Some dbh, calls = [Call_verify] \<rparr>) \<and>
         (\<forall>x.
            verify_oauth2_token e (credential payload) (GOOGLE_CLIENT_ID cfg) = Inl x \<longrightarrow>
            auth_google cfg e (Some dbh) payload =
              \<lparr> result = Inl (HTTPException 401 (''Invalid Google token: '' @ str_exn x)),
                db_after = Some dbh, calls = [Call_verify] \<rparr>)"
  using assms by (simp add: auth_google_def auth_google_try_def)

theorem wrong_issuer_rejected_witness:
  "credential ex_payload \<noteq> [] \<and>
   verify_oauth2_token evil_env (credential ex_payload) (GOOGLE_CLIENT_ID ex_cfg)
     = Inr evil_idinfo \<and>
   evil_idinfo ''iss'' = Some ''evil.com'' \<and>
   auth_google ex_cfg evil_env (Some alice_db) ex_payload =
     \<lparr> result = Inl (HTTPException 401 ''Invalid Google token: Wrong issuer.''),
       db_after = Some alice_db, calls = [Call_verify] \<rparr> \<and>
   verify_oauth2_token forged_env (credential ex_payload) (GOOGLE_CLIENT_ID ex_cfg)
     = Inl (ValueError ''Could not verify token signature.'') \<and>
   auth_google ex_cfg forged_env (Some alice_db) ex_payload =
     \<lparr> result =
         Inl (HTTPException 401 ''Invalid Google token: Could not verify token signature.''),
       db_after = Some alice_db, calls = [Call_verify] \<rparr>"
proof -
  have h1: "credential ex_payload \<noteq> []"
    by (simp add: ex_payload_def)
  have h2: "verify_oauth2_token evil_env (credential ex_payload) (GOOGLE_CLIENT_ID ex_cfg)
     = Inr evil_idinfo"
    by (simp add: evil_env_def)
  have h3: "evil_idinfo ''iss'' = Some ''evil.com''"
    by (simp add: evil_idinfo_def)
  have h4: "evil_idinfo ''iss'' \<noteq> Some ''accounts.google.com''"
    "evil_idinfo ''iss'' \<noteq> Some ''https://accounts.google.com''"
    by (simp_all add: evil_idinfo_def)
  have h5: "verify_oauth2_token forged_env (credential ex_payload) (GOOGLE_CLIENT_ID ex_cfg)
     = Inl (ValueError ''Could not verify token signature.'')"
    by (simp add: forged_env_def)
  note w = wrong_issuer_rejected [OF h1, where e = evil_env and cfg = ex_cfg and dbh = alice_db]
  note f = wrong_issuer_rejected [OF h1, where e = forged_env and cfg = ex_cfg and dbh = alice_db]
  from conjunct1 [OF w] h2 h4
  have a: "auth_google ex_cfg evil_env (Some alice_db) ex_payload =
     \<lparr> result = Inl (HTTPException 401 ''Invalid Google token: Wrong issuer.''),
       db_after = Some alice_db, calls = [Call_verify] \<rparr>"
    by blast
  from conjunct2 [OF f] h5
  have b: "auth_google ex_cfg forged_env (Some alice_db) ex_payload =
     \<lparr> result =
         Inl (HTTPException 401 ''Invalid Google token: Could not verify token signature.''),
       db_after = Some alice_db, calls = [Call_verify] \<rparr>"
    by fastforce
  from h1 h2 h3 a h5 b show ?thesis
    by (intro conjI)
qed

text \<open>
  C7. When the verifier returns claims with an accepted issuer and without a non-empty
  email (absent, or the empty string), the request fails with
  \<^verbatim>\<open>ValueError("No email in Google token")\<close>, surfaced as the 401 response of a failed
  verification; no token is issued, the database is unchanged and no store call is made.
\<close>

theorem missing_email_rejected:
  assumes "credential payload \<noteq> []"
    and "verify_oauth2_token e (credential payload) (GOOGLE_CLIENT_ID cfg) = Inr idinfo"
    and "idinfo ''iss'' = Some ''accounts.google.com''
         \<or> idinfo ''iss'' = Some ''https://accounts.google.com''"
    and "idinfo ''email'' = None \<or> idinfo ''email'' = Some []"
  shows "auth_google cfg e (Some dbh) payload =
           \<lparr> result = Inl (HTTPException 401 ''Invalid Google token: No email in Google token''),
             db_after = Some dbh, calls = [Call_verify] \<rparr>"
  using assms by (auto simp: auth_google_def auth_google_try_def)

theorem missing_email_rejected_witness:
  "credential ex_payload \<noteq> [] \<and>
   verify_oauth2_token anon_env (credential ex_payload) (GOOGLE_CLIENT_ID ex_cfg)
     = Inr anon_idinfo \<and>
   anon_idinfo ''iss'' = Some ''https://accounts.google.com'' \<and>
   anon_idinfo ''email'' = None \<and>
   auth_google ex_cfg anon_env (Some empty_db) ex_payload =
     \<lparr> result = Inl (HTTPException 401 ''Invalid Google token: No email in Google token''),
       db_after = Some empty_db, calls = [Call_verify] \<rparr>"
proof -
  have h1: "credential ex_payload \<noteq> []"
    by (simp add: ex_payload_def)
  have h2: "verify_oauth2_token anon_env (credential ex_payload) (GOOGLE_CLIENT_ID ex_cfg)
     = Inr anon_idinfo"
    by (simp add: anon_env_def)
  have h3: "anon_idinfo ''iss'' = Some ''https://accounts.google.com''"
    by (simp add: anon_idinfo_def)
  have h4: "anon_idinfo ''email'' = None"
    by (simp add: anon_idinfo_def)
  from h1 h2 h3 h4
    missing_email_rejected [OF h1 h2 disjI2 [OF h3] disjI1 [OF h4], of empty_db]
  show ?thesis
    by (intro conjI)
qed

section \<open>The user view\<close>

text \<open>
  C8. The \<^verbatim>\<open>user\<close> dictionary of a successful response has exactly the keys \<^verbatim>\<open>id\<close>,
  \<^verbatim>\<open>email\<close>, \<^verbatim>\<open>name\<close>, \<^verbatim>\<open>picture\<close> and \<^verbatim>\<open>provider\<close>: \<^verbatim>\<open>id\<close> is \<^verbatim>\<open>str(_id)\<close> of the upserted
  record, \<^verbatim>\<open>email\<close> the verified email, \<^verbatim>\<open>name\<close> and \<^verbatim>\<open>picture\<close> the verified claims or
  \<^verbatim>\<open>None\<close>, \<^verbatim>\<open>provider\<close> the constant \<^verbatim>\<open>"google"\<close>. It has no key for the provider subject
  (\<^verbatim>\<open>sub\<close>, \<^verbatim>\<open>google_sub\<close>) and none for the raw \<^verbatim>\<open>_id\<close>.
\<close>

theorem user_view_fields:
  assumes "result (auth_google cfg e db payload) = Inr r"
  shows "dom (user r) = {''id'', ''email'', ''name'', ''picture'', ''provider''} \<and>
     user r ''provider'' = Some (PStr ''google'') \<and>
     ''google_sub'' \<notin> dom (user r) \<and> ''sub'' \<notin> dom (user r) \<and> ''_id'' \<notin> dom (user r) \<and>
     (\<exists>idinfo em doc.
        verify_oauth2_token e (credential payload) (GOOGLE_CLIENT_ID cfg) = Inr idinfo \<and>
        idinfo ''email'' = Some em \<and>
        find_one (email_filter em) (users_after (auth_google cfg e db payload)) = Some doc \<and>
        user r ''id'' = Some (PStr (str_oid (doc_id doc))) \<and>
        user r ''email'' = Some (PStr em) \<and>
        user r ''name'' = Some (opt_val (idinfo ''name'')) \<and>
        user r ''picture'' = Some (opt_val (idinfo ''picture'')))"
proof (rule auth_google_success [OF assms])
  fix dbh idinfo em doc td exp
  assume h: "verify_oauth2_token e (credential payload) (GOOGLE_CLIENT_ID cfg) = Inr idinfo"
    "idinfo ''email'' = Some em"
    "db_after (auth_google cfg e db payload)
       = Some (dbh(''user'' := upserted e idinfo em (dbh ''user'')))"
    "find_one (email_filter em) (upserted e idinfo em (dbh ''user'')) = Some doc"
    "user r = user_view (str_oid (doc_id doc)) em (idinfo ''name'') (idinfo ''picture'')"
  have u: "users_after (auth_google cfg e db payload) = upserted e idinfo em (dbh ''user'')"
    by (simp add: users_after_def h(3))
  have d: "dom (user r) = {''id'', ''email'', ''name'', ''picture'', ''provider''}"
    by (simp only: h(5) dom_user_view)
  have n: "''google_sub'' \<notin> dom (user r)" "''sub'' \<notin> dom (user r)" "''_id'' \<notin> dom (user r)"
    by (simp_all add: d)
  have v: "user r ''provider'' = Some (PStr ''google'')"
    "user r ''id'' = Some (PStr (str_oid (doc_id doc)))"
    "user r ''email'' = Some (PStr em)"
    "user r ''name'' = Some (opt_val (idinfo ''name''))"
    "user r ''picture'' = Some (opt_val (idinfo ''picture''))"
    by (simp_all add: h(5) user_view_def)
  have "\<exists>idinfo em doc.
        verify_oauth2_token e (credential payload) (GOOGLE_CLIENT_ID cfg) = Inr idinfo \<and>
        idinfo ''email'' = Some em \<and>
        find_one (email_filter em) (users_after (auth_google cfg e db payload)) = Some doc \<and>
        user r ''id'' = Some (PStr (str_oid (doc_id doc))) \<and>
        user r ''email'' = Some (PStr em) \<and>
        user r ''name'' = Some (opt_val (idinfo ''name'')) \<and>
        user r ''picture'' = Some (opt_val (idinfo ''picture''))"
    apply (rule exI [of _ idinfo], rule exI [of _ em], rule exI [of _ doc])
    using h(1,2,4) u v by simp
  with d v(1) n show ?thesis
    by (intro conjI)
qed

theorem user_view_fields_witness:
  "result (auth_google ex_cfg ex_env (Some empty_db) ex_payload) = Inr ex_response \<and>
   dom (user ex_response) = {''id'', ''email'', ''name'', ''picture'', ''provider''} \<and>
   user ex_response ''provider'' = Some (PStr ''google'') \<and>
   ''google_sub'' \<notin> dom (user ex_response) \<and> ''sub'' \<notin> dom (user ex_response) \<and>
   ''_id'' \<notin> dom (user ex_response) \<and>
   (\<exists>idinfo em doc.
      verify_oauth2_token ex_env (credential ex_payload) (GOOGLE_CLIENT_ID ex_cfg) = Inr idinfo \<and>
      idinfo ''email'' = Some em \<and>
      find_one (email_filter em)
        (users_after (auth_google ex_cfg ex_env (Some empty_db) ex_payload)) = Some doc \<and>
      user ex_response ''id'' = Some (PStr (str_oid (doc_id doc))) \<and>
      user ex_response ''email'' = Some (PStr em) \<and>
      user ex_response ''name'' = Some (opt_val (idinfo ''name'')) \<and>
      user ex_response ''picture'' = Some (opt_val (idinfo ''picture'')))"
  using ex_success user_view_fields [OF ex_success] by (rule conjI)

section \<open>The store is unavailable\<close>

text \<open>
  C4, as stated, fails when the store stops answering between the upsert and the
  re-read: the request then gets the 401 of a failed verification ("Invalid Google
  token: ..."), not a server-error status, and the record written by the upsert stays
  although no token is returned. When the upsert itself cannot reach the store, the
  status is the same 401.
\<close>

theorem store_unreachable_counterexample:
  "find_one_fault down_at_find = Some (LibraryError ''localhost:27017: timed out'') \<and>
   result (auth_google ex_cfg down_at_find (Some empty_db) ex_payload)
     = Inl (HTTPException 401 ''Invalid Google token: localhost:27017: timed out'') \<and>
   empty_db ''user'' = [] \<and>
   users_after (auth_google ex_cfg down_at_find (Some empty_db) ex_payload) = [alice_doc] \<and>
   update_one_fault down_at_update = Some (LibraryError ''localhost:27017: timed out'') \<and>
   result (auth_google ex_cfg down_at_update (Some empty_db) ex_payload)
     = Inl (HTTPException 401 ''Invalid Google token: localhost:27017: timed out'')"
  by (simp add: eval_defs ex_defs users_after_def alice_doc_def)

text \<open>
  C4, amended. With an unconfigured database handle the request fails with 500
  "Database not configured", a status other than the 401 of a failed verification, and
  nothing is called or written. When the store cannot be reached during the flow
  (\<^verbatim>\<open>update_one\<close> or \<^verbatim>\<open>find_one\<close> raises), the request fails and no token is minted; the
  user collection is unchanged when the upsert itself failed, and holds the upserted
  record when only the re-read failed (nothing is rolled back).
\<close>

theorem store_unavailable:
  assumes "credential payload \<noteq> []"
    and "verify_oauth2_token e (credential payload) (GOOGLE_CLIENT_ID cfg) = Inr idinfo"
    and "idinfo ''iss'' = Some ''accounts.google.com''
         \<or> idinfo ''iss'' = Some ''https://accounts.google.com''"
    and "idinfo ''email'' = Some em" and "em \<noteq> []"
    and "update_one_fault e \<noteq> None \<or> find_one_fault e \<noteq> None"
  shows "auth_google cfg e None payload =
           \<lparr> result = Inl (HTTPException 500 ''Database not configured''),
             db_after = None, calls = [] \<rparr> \<and>
         status_code (HTTPException 500 ''Database not configured'') \<noteq> 401 \<and>
         (\<exists>h. result (auth_google cfg e (Some dbh) payload) = Inl h) \<and>
         Call_jwt_encode \<notin> set (calls (auth_google cfg e (Some dbh) payload)) \<and>
         users_after (auth_google cfg e (Some dbh) payload) =
           (if update_one_fault e = None then upserted e idinfo em (dbh ''user'')
            else dbh ''user'')"
proof -
  have 1: "auth_google cfg e None payload =
           \<lparr> result = Inl (HTTPException 500 ''Database not configured''),
             db_after = None, calls = [] \<rparr>"
    by (simp add: auth_google_def)
  have 2: "status_code (HTTPException 500 ''Database not configured'') \<noteq> 401"
    by simp
  show ?thesis
  proof (cases "update_one_fault e")
    case (Some x)
    then have t: "auth_google_try cfg e dbh (credential payload)
        = (Inl x, dbh(''user'' := dbh ''user''), [Call_verify, Call_update_one])"
      using assms(2-5)
      by (auto simp: auth_google_try_def upsert_user_def Let_def)
    have "result (auth_google cfg e (Some dbh) payload)
        = Inl (HTTPException 401 (''Invalid Google token: '' @ str_exn x))"
      and "calls (auth_google cfg e (Some dbh) payload) = [Call_verify, Call_update_one]"
      and "users_after (auth_google cfg e (Some dbh) payload) = dbh ''user''"
      using assms(1) t by (simp_all add: auth_google_def users_after_def)
    with 1 2 Some show ?thesis by simp
  next
    case None
    with assms(6) obtain x where f: "find_one_fault e = Some x"
      by auto
    have t: "auth_google_try cfg e dbh (credential payload)
        = (Inl x, dbh(''user'' := upserted e idinfo em (dbh ''user'')),
           [Call_verify, Call_update_one, Call_find_one])"
      using assms(2-5) None f
      by (auto simp: auth_google_try_def upsert_user_def Let_def)
    have "result (auth_google cfg e (Some dbh) payload)
        = Inl (HTTPException 401 (''Invalid Google token: '' @ str_exn x))"
      and "calls (auth_google cfg e (Some dbh) payload)
        = [Call_verify, Call_update_one, Call_find_one]"
      and "users_after (auth_google cfg e (Some dbh) payload)
        = upserted e idinfo em (dbh ''user'')"
      using assms(1) t by (simp_all add: auth_google_def users_after_def)
    with 1 2 None show ?thesis by simp
  qed
qed

theorem store_unavailable_witness:
  "credential ex_payload \<noteq> [] \<and>
   verify_oauth2_token down_at_find (credential ex_payload) (GOOGLE_CLIENT_ID ex_cfg)
     = Inr alice_idinfo \<and>
   alice_idinfo ''iss'' = Some ''accounts.google.com'' \<and>
   alice_idinfo ''email'' = Some ''alice@example.com'' \<and>
   update_one_fault down_at_find = None \<and>
   find_one_fault down_at_find \<noteq> None \<and>
   (\<exists>h. result (auth_google ex_cfg down_at_find (Some empty_db) ex_payload) = Inl h) \<and>
   Call_jwt_encode \<notin> set (calls (auth_google ex_cfg down_at_find (Some empty_db) ex_payload)) \<and>
   users_after (auth_google ex_cfg down_at_find (Some empty_db) ex_payload)
     = upserted down_at_find alice_idinfo ''alice@example.com'' (empty_db ''user'') \<and>
   upserted down_at_find alice_idinfo ''alice@example.com'' (empty_db ''user'') = [alice_doc]"
proof -
  have h1: "credential ex_payload \<noteq> []"
    by (simp add: ex_payload_def)
  have h2: "verify_oauth2_token down_at_find (credential ex_payload) (GOOGLE_CLIENT_ID ex_cfg)
     = Inr alice_idinfo"
    by (simp add: down_at_find_def ex_env_def)
  have h3: "alice_idinfo ''iss'' = Some ''accounts.google.com''"
    by (simp add: alice_idinfo_def)
  have h4: "alice_idinfo ''email'' = Some ''alice@example.com''"
    by (simp add: alice_idinfo_def)
  have h5: "''alice@example.com'' \<noteq> []"
    by simp
  have h6: "update_one_fault down_at_find = None"
    by (simp add: down_at_find_def ex_env_def)
  have h7: "find_one_fault down_at_find \<noteq> None"
    by (simp add: down_at_find_def)
  have h8: "upserted down_at_find alice_idinfo ''alice@example.com'' (empty_db ''user'')
     = [alice_doc]"
    by (simp add: eval_defs ex_defs alice_doc_def)
  note t = store_unavailable [OF h1 h2 disjI1 [OF h3] h4 h5 disjI2 [OF h7], of empty_db]
  from h1 h2 h3 h4 h6 h7 h8 t show ?thesis
    by simp
qed

section \<open>The upsert on the user collection\<close>

lemma find_update_first:
  assumes "\<And>d. p d \<Longrightarrow> p (f d)"
  shows "find p (update_first p f xs) = map_option f (find p xs)"
  by (induction xs) (simp_all add: assms)

lemma filter_update_first:
  assumes "\<And>d. p d \<Longrightarrow> p (f d)"
  shows "length (filter p (update_first p f xs)) = length (filter p xs)"
  by (induction xs) (simp_all add: assms)

lemma filter_not_update_first:
  assumes "\<And>d. p d \<Longrightarrow> p (f d)"
  shows "filter (\<lambda>d. \<not> p d) (update_first p f xs) = filter (\<lambda>d. \<not> p d) xs"
  by (induction xs) (simp_all add: assms)

lemma length_update_first: "length (update_first p f xs) = length xs"
  by (induction xs) simp_all

lemma update_first_split:
  assumes "\<forall>d \<in> set front. \<not> p d" and "p old"
  shows "update_first p f (front @ old # rest) = front @ f old # rest"
  using assms by (induction front) simp_all

lemma find_split:
  assumes "\<forall>d \<in> set front. \<not> p d" and "p old"
  shows "find p (front @ old # rest) = Some old"
  using assms by (induction front) simp_all

lemma list_ex_find: "list_ex p xs \<longleftrightarrow> find p xs \<noteq> None"
  by (induction xs) simp_all

lemma find_None_filter: "find p xs = None \<Longrightarrow> filter p xs = []"
  by (induction xs) (simp_all split: if_splits)

lemma find_Some_filter: "find p xs = Some d \<Longrightarrow> filter p xs \<noteq> []"
  by (induction xs) (simp_all split: if_splits)

lemma find_Some_holds: "find p xs = Some d \<Longrightarrow> p d"
  by (induction xs) (simp_all split: if_splits)

lemma find_append_new: "find p xs = None \<Longrightarrow> p n \<Longrightarrow> find p (xs @ [n]) = Some n"
  by (induction xs) (simp_all split: if_splits)

text \<open>A stored time is the whole millisecond in which the clock was read.\<close>

lemma bson_millis_bounds: "bson_millis t \<le> t \<and> t - 1000 < bson_millis t"
  by (simp add: bson_millis_def)

text \<open>What the store keeps of the filter and of the two documents the endpoint sends.\<close>

lemma bson_email_filter: "bson_doc (email_filter em) = email_filter em"
  by (simp add: bson_doc_def email_filter_def)

lemma bson_set_fields:
  "bson_doc (set_fields em name picture sub now) = set_fields em name picture sub (bson_millis now)"
  by (cases name; cases picture; cases sub) (simp_all add: bson_doc_def set_fields_def)

lemma bson_set_on_insert_fields:
  "bson_doc (set_on_insert_fields now) = set_on_insert_fields (bson_millis now)"
  by (simp add: bson_doc_def set_on_insert_fields_def)

text \<open>The filter of lines 84 and 99 selects the records that belong to the email.\<close>

lemma matches_email_filter: "matches (email_filter em) = has_email em"
  by (rule ext) (simp add: matches_def email_filter_def has_email_def)

lemma find_one_email: "find_one (email_filter em) users = find (has_email em) users"
  by (simp add: find_one_def bson_email_filter matches_email_filter)

lemma update_one_upsert_email:
  "update_one_upsert (email_filter em) (set_fields em name picture sub now)
     (set_on_insert_fields now') i users =
   (if list_ex (has_email em) users
    then update_first (has_email em)
           (\<lambda>d. d\<lparr>doc_fields :=
                    doc_fields d ++ map_of (set_fields em name picture sub (bson_millis now))\<rparr>)
           users
    else users @ [\<lparr>doc_id = i,
                    doc_fields = map_of (email_filter em)
                      ++ map_of (set_fields em name picture sub (bson_millis now))
                      ++ map_of (set_on_insert_fields (bson_millis now'))\<rparr>])"
  by (simp add: update_one_upsert_def bson_email_filter bson_set_fields
      bson_set_on_insert_fields matches_email_filter)

text \<open>The \<^verbatim>\<open>$set\<close> document writes the filter's own email, so an updated record keeps it.\<close>

lemma has_email_after_set:
  "has_email em
     (d\<lparr>doc_fields := doc_fields d ++ map_of (set_fields em name picture sub now)\<rparr>)"
  by (simp add: has_email_def set_fields_def)

lemma has_email_inserted:
  "has_email em
     \<lparr>doc_id = i,
      doc_fields = map_of (email_filter em) ++ map_of (set_fields em name picture sub now)
        ++ map_of (set_on_insert_fields now')\<rparr>"
  by (simp add: has_email_def email_filter_def set_fields_def set_on_insert_fields_def)

lemma dom_set_fields:
  "dom (map_of (set_fields em name picture sub now))
     = {''email'', ''name'', ''picture'', ''provider'', ''google_sub'', ''updated_at''}"
  by (auto simp: set_fields_def)

lemma dom_inserted:
  "dom (map_of (email_filter em) ++ map_of (set_fields em name picture sub now)
          ++ map_of (set_on_insert_fields now'))
     = {''email'', ''name'', ''picture'', ''provider'', ''google_sub'', ''updated_at'',
        ''created_at''}"
  by (auto simp: email_filter_def set_fields_def set_on_insert_fields_def)

text \<open>
  The upsert when a record belongs to the email: the first such record gets the \<^verbatim>\<open>$set\<close>
  fields, and no other record is touched.
\<close>

lemma upsert_existing:
  assumes "find (has_email em) users = Some old"
  shows "find (has_email em)
           (update_one_upsert (email_filter em) (set_fields em name picture sub now)
              (set_on_insert_fields now') i users)
         = Some (old\<lparr>doc_fields :=
                     doc_fields old
                       ++ map_of (set_fields em name picture sub (bson_millis now))\<rparr>)"
    and "length (records_for em
           (update_one_upsert (email_filter em) (set_fields em name picture sub now)
              (set_on_insert_fields now') i users))
         = length (records_for em users)"
    and "length (update_one_upsert (email_filter em) (set_fields em name picture sub now)
           (set_on_insert_fields now') i users) = length users"
    and "records_of_others em
           (update_one_upsert (email_filter em) (set_fields em name picture sub now)
              (set_on_insert_fields now') i users)
         = records_of_others em users"
proof -
  from assms have ex: "list_ex (has_email em) users"
    by (simp add: list_ex_find)
  show "find (has_email em)
           (update_one_upsert (email_filter em) (set_fields em name picture sub now)
              (set_on_insert_fields now') i users)
         = Some (old\<lparr>doc_fields :=
                     doc_fields old
                       ++ map_of (set_fields em name picture sub (bson_millis now))\<rparr>)"
    using assms ex
    by (simp add: update_one_upsert_email find_update_first has_email_after_set)
  show "length (records_for em
           (update_one_upsert (email_filter em) (set_fields em name picture sub now)
              (set_on_insert_fields now') i users))
         = length (records_for em users)"
    using ex
    by (simp add: update_one_upsert_email records_for_def filter_update_first
        has_email_after_set)
  show "length (update_one_upsert (email_filter em) (set_fields em name picture sub now)
           (set_on_insert_fields now') i users) = length users"
    using ex by (simp add: update_one_upsert_email length_update_first)
  show "records_of_others em
           (update_one_upsert (email_filter em) (set_fields em name picture sub now)
              (set_on_insert_fields now') i users)
         = records_of_others em users"
    using ex
    by (simp add: update_one_upsert_email records_of_others_def filter_not_update_first
        has_email_after_set)
qed

text \<open>The same upsert, with the place of the record in the collection.\<close>

lemma upsert_in_place:
  assumes "\<forall>d \<in> set front. \<not> has_email em d" and "has_email em old"
  shows "update_one_upsert (email_filter em) (set_fields em name picture sub now)
           (set_on_insert_fields now') i (front @ old # rest)
         = front @ old\<lparr>doc_fields :=
                          doc_fields old
                            ++ map_of (set_fields em name picture sub (bson_millis now))\<rparr>
             # rest"
proof -
  from assms(2) have ex: "list_ex (has_email em) (front @ old # rest)"
    by (simp add: list_ex_iff)
  show ?thesis
    using ex assms by (simp add: update_one_upsert_email update_first_split)
qed

text \<open>The upsert when no record belongs to the email: one record is appended.\<close>

lemma upsert_new:
  assumes "find (has_email em) users = None"
  shows "update_one_upsert (email_filter em) (set_fields em name picture sub now)
           (set_on_insert_fields now') i users
         = users @ [\<lparr>doc_id = i,
                      doc_fields = map_of (email_filter em)
                        ++ map_of (set_fields em name picture sub (bson_millis now))
                        ++ map_of (set_on_insert_fields (bson_millis now'))\<rparr>]"
    and "find (has_email em)
           (update_one_upsert (email_filter em) (set_fields em name picture sub now)
              (set_on_insert_fields now') i users)
         = Some \<lparr>doc_id = i,
                 doc_fields = map_of (email_filter em)
                   ++ map_of (set_fields em name picture sub (bson_millis now))
                   ++ map_of (set_on_insert_fields (bson_millis now'))\<rparr>"
    and "length (records_for em
           (update_one_upsert (email_filter em) (set_fields em name picture sub now)
              (set_on_insert_fields now') i users)) = 1"
    and "records_of_others em
           (update_one_upsert (email_filter em) (set_fields em name picture sub now)
              (set_on_insert_fields now') i users)
         = records_of_others em users"
    and "records_for em users = []"
proof -
  from assms have nex: "\<not> list_ex (has_email em) users"
    by (simp add: list_ex_find)
  from assms have none: "filter (has_email em) users = []"
    by (simp add: find_None_filter)
  show 1: "update_one_upsert (email_filter em) (set_fields em name picture sub now)
           (set_on_insert_fields now') i users
         = users @ [\<lparr>doc_id = i,
                      doc_fields = map_of (email_filter em)
                        ++ map_of (set_fields em name picture sub (bson_millis now))
                        ++ map_of (set_on_insert_fields (bson_millis now'))\<rparr>]"
    using nex by (simp add: update_one_upsert_email)
  show "find (has_email em)
           (update_one_upsert (email_filter em) (set_fields em name picture sub now)
              (set_on_insert_fields now') i users)
         = Some \<lparr>doc_id = i,
                 doc_fields = map_of (email_filter em)
                   ++ map_of (set_fields em name picture sub (bson_millis now))
                   ++ map_of (set_on_insert_fields (bson_millis now'))\<rparr>"
    unfolding 1
    using assms by (intro find_append_new has_email_inserted)
  show "length (records_for em
           (update_one_upsert (email_filter em) (set_fields em name picture sub now)
              (set_on_insert_fields now') i users)) = 1"
    unfolding 1 records_for_def
    using none has_email_inserted [of em i name picture sub "bson_millis now" "bson_millis now'"]
    by simp
  show "records_of_others em
           (update_one_upsert (email_filter em) (set_fields em name picture sub now)
              (set_on_insert_fields now') i users)
         = records_of_others em users"
    unfolding 1 records_of_others_def
    using has_email_inserted [of em i name picture sub "bson_millis now" "bson_millis now'"]
    by simp
  show "records_for em users = []"
    using none by (simp add: records_for_def)
qed

text \<open>What a successful request with a given email did to the user collection.\<close>

lemma succeeds_for_step:
  assumes "succeeds_for E (auth_google cfg e (Some db) payload)"
  shows "\<exists>idinfo doc.
     verify_oauth2_token e (credential payload) (GOOGLE_CLIENT_ID cfg) = Inr idinfo \<and>
     idinfo ''email'' = Some E \<and>
     db_after (auth_google cfg e (Some db) payload)
       = Some (db(''user'' := upserted e idinfo E (db ''user''))) \<and>
     users_after (auth_google cfg e (Some db) payload) = upserted e idinfo E (db ''user'') \<and>
     find (has_email E) (upserted e idinfo E (db ''user'')) = Some doc \<and>
     returned_id (auth_google cfg e (Some db) payload) = Some (PStr (str_oid (doc_id doc)))"
proof -
  from assms obtain r where r: "result (auth_google cfg e (Some db) payload) = Inr r"
    and em: "user r ''email'' = Some (PStr E)"
    by (auto simp: succeeds_for_def split: sum.splits)
  show ?thesis
  proof (rule auth_google_success [OF r])
    fix dbh idinfo em doc td exp
    assume h: "Some db = Some dbh"
      "verify_oauth2_token e (credential payload) (GOOGLE_CLIENT_ID cfg) = Inr idinfo"
      "idinfo ''email'' = Some em"
      "db_after (auth_google cfg e (Some db) payload)
         = Some (dbh(''user'' := upserted e idinfo em (dbh ''user'')))"
      "find_one (email_filter em) (upserted e idinfo em (dbh ''user'')) = Some doc"
      "user r = user_view (str_oid (doc_id doc)) em (idinfo ''name'') (idinfo ''picture'')"
    from h(6) em have e1: "em = E"
      by (simp add: user_view_def)
    from h(1) have e2: "dbh = db"
      by simp
    have i: "returned_id (auth_google cfg e (Some db) payload)
        = Some (PStr (str_oid (doc_id doc)))"
      by (simp add: returned_id_def r h(6) user_view_def)
    have u: "users_after (auth_google cfg e (Some db) payload) = upserted e idinfo E (db ''user'')"
      using h(4) by (simp add: users_after_def e1 e2)
    have f: "find (has_email E) (upserted e idinfo E (db ''user'')) = Some doc"
      using h(5) unfolding e1 e2 by (simp only: find_one_email)
    show ?thesis
      apply (rule exI [of _ idinfo], rule exI [of _ doc])
      using h(2-4) f i u unfolding e1 e2 by simp
  qed
qed

section \<open>What the upsert overwrites\<close>

lemma ex_success2:
  "result (auth_google ex_cfg ex_env2 (Some both_db) ex_payload) = Inr ex_response2"
  by (simp add: eval_defs ex_defs ex_env2_def alice_idinfo2_def both_db_def bob_doc_def
      alice_doc_def ex_response2_def)

text \<open>
  C10. Take a successful authentication with verified email \<open>em\<close>, and let \<open>old\<close> be the
  first record of the user collection whose \<^verbatim>\<open>email\<close> field is \<open>em\<close>. Afterwards the
  collection is the same list with \<open>old\<close> replaced, at its place, by a record \<open>new\<close>; the
  records before and behind it are untouched. The fields of \<open>new\<close> are those of \<open>old\<close>
  overridden by the \<^verbatim>\<open>$set\<close> document: \<^verbatim>\<open>email\<close>, \<^verbatim>\<open>name\<close>, \<^verbatim>\<open>picture\<close>, \<^verbatim>\<open>provider\<close>,
  \<^verbatim>\<open>google_sub\<close> and \<^verbatim>\<open>updated_at\<close> are written unconditionally from the latest claims.
  A claim that is missing is stored as \<^verbatim>\<open>None\<close>, whatever was stored before, and
  \<^verbatim>\<open>updated_at\<close> is the clock reading of the call, kept by the store to the millisecond.
  \<^verbatim>\<open>_id\<close> and \<^verbatim>\<open>created_at\<close> keep their values; of the fields the endpoint gives a record
  it inserts, \<^verbatim>\<open>created_at\<close> is the only one that the \<^verbatim>\<open>$set\<close> document does not write.
\<close>

theorem upsert_overwrites_profile:
  assumes "result (auth_google cfg e (Some db) payload) = Inr r"
    and "verify_oauth2_token e (credential payload) (GOOGLE_CLIENT_ID cfg) = Inr idinfo"
    and "idinfo ''email'' = Some em"
    and "db ''user'' = front @ old # rest"
    and "doc_fields old ''email'' = Some (PStr em)"
    and "\<forall>d \<in> set front. doc_fields d ''email'' \<noteq> Some (PStr em)"
  shows "\<exists>new.
     users_after (auth_google cfg e (Some db) payload) = front @ new # rest \<and>
     doc_fields new = doc_fields old
       ++ map_of (set_fields em (idinfo ''name'') (idinfo ''picture'') (idinfo ''sub'')
                    (bson_millis (utcnow_upsert e))) \<and>
     dom (map_of (set_fields em (idinfo ''name'') (idinfo ''picture'') (idinfo ''sub'')
                    (bson_millis (utcnow_upsert e))))
       = {''email'', ''name'', ''picture'', ''provider'', ''google_sub'', ''updated_at''} \<and>
     doc_fields new ''name'' = Some (opt_val (idinfo ''name'')) \<and>
     doc_fields new ''picture'' = Some (opt_val (idinfo ''picture'')) \<and>
     doc_fields new ''google_sub'' = Some (opt_val (idinfo ''sub'')) \<and>
     doc_fields new ''email'' = Some (PStr em) \<and>
     doc_fields new ''provider'' = Some (PStr ''google'') \<and>
     doc_fields new ''updated_at'' = Some (PDatetime (bson_millis (utcnow_upsert e))) \<and>
     bson_millis (utcnow_upsert e) \<le> utcnow_upsert e \<and>
     utcnow_upsert e - 1000 < bson_millis (utcnow_upsert e) \<and>
     doc_fields new ''created_at'' = doc_fields old ''created_at'' \<and>
     doc_id new = doc_id old \<and>
     dom (map_of (email_filter em)
            ++ map_of (set_fields em (idinfo ''name'') (idinfo ''picture'') (idinfo ''sub'')
                         (bson_millis (utcnow_upsert e)))
            ++ map_of (set_on_insert_fields (bson_millis (utcnow_upsert e))))
       - dom (map_of (set_fields em (idinfo ''name'') (idinfo ''picture'') (idinfo ''sub'')
                        (bson_millis (utcnow_upsert e))))
       = {''created_at''}"
proof (rule auth_google_success [OF assms(1)])
  fix dbh idinfo' em' doc td exp
  assume h: "Some db = Some dbh"
    "verify_oauth2_token e (credential payload) (GOOGLE_CLIENT_ID cfg) = Inr idinfo'"
    "idinfo' ''email'' = Some em'"
    "db_after (auth_google cfg e (Some db) payload)
       = Some (dbh(''user'' := upserted e idinfo' em' (dbh ''user'')))"
  from h(2) assms(2) have i: "idinfo' = idinfo"
    by simp
  from h(3) assms(3) i have m: "em' = em"
    by simp
  from h(1) have d: "dbh = db"
    by simp
  let ?S = "set_fields em (idinfo ''name'') (idinfo ''picture'') (idinfo ''sub'')
      (bson_millis (utcnow_upsert e))"
  let ?new = "old\<lparr>doc_fields := doc_fields old ++ map_of ?S\<rparr>"
  from assms(5) have o: "has_email em old"
    by (simp add: has_email_def)
  from assms(6) have b: "\<forall>d \<in> set front. \<not> has_email em d"
    by (simp add: has_email_def)
  have u: "users_after (auth_google cfg e (Some db) payload) = upserted e idinfo em (db ''user'')"
    using h(4) by (simp add: users_after_def i m d)
  have f: "users_after (auth_google cfg e (Some db) payload) = front @ ?new # rest"
    unfolding u assms(4) by (rule upsert_in_place [OF b o])
  have v: "doc_fields ?new ''name'' = Some (opt_val (idinfo ''name''))"
    "doc_fields ?new ''picture'' = Some (opt_val (idinfo ''picture''))"
    "doc_fields ?new ''google_sub'' = Some (opt_val (idinfo ''sub''))"
    "doc_fields ?new ''email'' = Some (PStr em)"
    "doc_fields ?new ''provider'' = Some (PStr ''google'')"
    "doc_fields ?new ''updated_at'' = Some (PDatetime (bson_millis (utcnow_upsert e)))"
    "doc_fields ?new ''created_at'' = doc_fields old ''created_at''"
    by (simp_all add: set_fields_def map_add_def)
  have k: "dom (map_of (email_filter em) ++ map_of ?S
            ++ map_of (set_on_insert_fields (bson_millis (utcnow_upsert e))))
       - dom (map_of ?S) = {''created_at''}"
    unfolding dom_inserted dom_set_fields by auto
  show ?thesis
    apply (rule exI [of _ ?new])
    using f v k bson_millis_bounds [of "utcnow_upsert e"]
      dom_set_fields [of em "idinfo ''name''" "idinfo ''picture''" "idinfo ''sub''"
        "bson_millis (utcnow_upsert e)"]
    by simp
qed

theorem upsert_overwrites_profile_witness:
  "result (auth_google ex_cfg ex_env2 (Some both_db) ex_payload) = Inr ex_response2 \<and>
   verify_oauth2_token ex_env2 (credential ex_payload) (GOOGLE_CLIENT_ID ex_cfg)
     = Inr alice_idinfo2 \<and>
   alice_idinfo2 ''email'' = Some ''alice@example.com'' \<and>
   both_db ''user'' = [bob_doc] @ alice_doc # [] \<and>
   doc_fields alice_doc ''email'' = Some (PStr ''alice@example.com'') \<and>
   doc_fields bob_doc ''email'' = Some (PStr ''bob@example.com'') \<and>
   doc_fields alice_doc ''name'' = Some (PStr ''Alice'') \<and>
   doc_fields alice_doc ''created_at'' = Some (PDatetime 1000) \<and>
   alice_idinfo2 ''name'' = None \<and>
   utcnow_upsert ex_env2 = 5250 \<and>
   (\<exists>new.
     users_after (auth_google ex_cfg ex_env2 (Some both_db) ex_payload) = [bob_doc, new] \<and>
     doc_fields new ''email'' = Some (PStr ''alice@example.com'') \<and>
     doc_fields new ''name'' = Some PNone \<and>
     doc_fields new ''picture'' = Some PNone \<and>
     doc_fields new ''google_sub'' = Some (PStr ''g-1'') \<and>
     doc_fields new ''updated_at'' = Some (PDatetime 5000) \<and>
     doc_fields new ''created_at'' = Some (PDatetime 1000) \<and>
     doc_id new = ObjectId alice_id)"
proof -
  have h2: "verify_oauth2_token ex_env2 (credential ex_payload) (GOOGLE_CLIENT_ID ex_cfg)
     = Inr alice_idinfo2"
    by (simp add: ex_env2_def)
  have h3: "alice_idinfo2 ''email'' = Some ''alice@example.com''"
    by (simp add: alice_idinfo2_def)
  have h4: "both_db ''user'' = [bob_doc] @ alice_doc # []"
    by (simp add: both_db_def)
  have h5: "doc_fields alice_doc ''email'' = Some (PStr ''alice@example.com'')"
    by (simp add: alice_doc_def set_fields_def set_on_insert_fields_def email_filter_def)
  have bob: "doc_fields bob_doc ''email'' = Some (PStr ''bob@example.com'')"
    by (simp add: bob_doc_def)
  then have h6: "\<forall>d \<in> set [bob_doc]. doc_fields d ''email'' \<noteq> Some (PStr ''alice@example.com'')"
    by simp
  have o: "doc_fields alice_doc ''name'' = Some (PStr ''Alice'')"
    "doc_fields alice_doc ''created_at'' = Some (PDatetime 1000)"
    "doc_id alice_doc = ObjectId alice_id"
    by (simp_all add: alice_doc_def set_fields_def set_on_insert_fields_def email_filter_def)
  have n: "alice_idinfo2 ''name'' = None" "alice_idinfo2 ''picture'' = None"
    "alice_idinfo2 ''sub'' = Some ''g-1''"
    by (simp_all add: alice_idinfo2_def)
  have t: "utcnow_upsert ex_env2 = 5250"
    by (simp add: ex_env2_def)
  have t': "bson_millis 5250 = 5000"
    by (simp add: bson_millis_def)
  from upsert_overwrites_profile [OF ex_success2 h2 h3 h4 h5 h6] obtain new where
    c: "users_after (auth_google ex_cfg ex_env2 (Some both_db) ex_payload)
          = [bob_doc] @ new # []"
       "doc_fields new ''email'' = Some (PStr ''alice@example.com'')"
       "doc_fields new ''name'' = Some (opt_val (alice_idinfo2 ''name''))"
       "doc_fields new ''picture'' = Some (opt_val (alice_idinfo2 ''picture''))"
       "doc_fields new ''google_sub'' = Some (opt_val (alice_idinfo2 ''sub''))"
       "doc_fields new ''updated_at'' = Some (PDatetime (bson_millis (utcnow_upsert ex_env2)))"
       "doc_fields new ''created_at'' = doc_fields alice_doc ''created_at''"
       "doc_id new = doc_id alice_doc"
    by (elim exE conjE) (rule that)
  have "\<exists>new.
     users_after (auth_google ex_cfg ex_env2 (Some both_db) ex_payload) = [bob_doc, new] \<and>
     doc_fields new ''email'' = Some (PStr ''alice@example.com'') \<and>
     doc_fields new ''name'' = Some PNone \<and>
     doc_fields new ''picture'' = Some PNone \<and>
     doc_fields new ''google_sub'' = Some (PStr ''g-1'') \<and>
     doc_fields new ''updated_at'' = Some (PDatetime 5000) \<and>
     doc_fields new ''created_at'' = Some (PDatetime 1000) \<and>
     doc_id new = ObjectId alice_id"
    apply (rule exI [of _ new])
    using c o n t t' by simp
  with ex_success2 h2 h3 h4 h5 bob o(1,2) n(1) t show ?thesis
    by (intro conjI)
qed

section \<open>Repeated authentications with one email\<close>

text \<open>A successful request that finds a record of the email: that record is updated.\<close>

lemma step_existing:
  assumes "succeeds_for E (auth_google cfg e (Some db) payload)"
    and "find (has_email E) (db ''user'') = Some d0"
  shows "\<exists>db' d.
     db_after (auth_google cfg e (Some db) payload) = Some db' \<and>
     users_after (auth_google cfg e (Some db) payload) = db' ''user'' \<and>
     find (has_email E) (db' ''user'') = Some d \<and>
     doc_id d = doc_id d0 \<and>
     doc_fields d ''created_at'' = doc_fields d0 ''created_at'' \<and>
     doc_fields d ''updated_at'' = Some (PDatetime (bson_millis (utcnow_upsert e))) \<and>
     returned_id (auth_google cfg e (Some db) payload) = Some (PStr (str_oid (doc_id d0))) \<and>
     length (records_for E (db' ''user'')) = length (records_for E (db ''user'')) \<and>
     length (db' ''user'') = length (db ''user'') \<and>
     records_of_others E (db' ''user'') = records_of_others E (db ''user'')"
proof -
  from succeeds_for_step [OF assms(1)] obtain idinfo doc where
    s: "db_after (auth_google cfg e (Some db) payload)
          = Some (db(''user'' := upserted e idinfo E (db ''user'')))"
       "users_after (auth_google cfg e (Some db) payload) = upserted e idinfo E (db ''user'')"
       "find (has_email E) (upserted e idinfo E (db ''user'')) = Some doc"
       "returned_id (auth_google cfg e (Some db) payload) = Some (PStr (str_oid (doc_id doc)))"
    by (elim exE conjE) (rule that)
  let ?S = "set_fields E (idinfo ''name'') (idinfo ''picture'') (idinfo ''sub'')
      (bson_millis (utcnow_upsert e))"
  let ?d = "d0\<lparr>doc_fields := doc_fields d0 ++ map_of ?S\<rparr>"
  note u = upsert_existing [OF assms(2), of "idinfo ''name''" "idinfo ''picture''"
      "idinfo ''sub''" "utcnow_upsert e" "utcnow_upsert e" "new_object_id e"]
  from s(3) u(1) have doc: "doc = ?d"
    by simp
  have v: "doc_fields ?d ''created_at'' = doc_fields d0 ''created_at''"
    "doc_fields ?d ''updated_at'' = Some (PDatetime (bson_millis (utcnow_upsert e)))"
    by (simp_all add: set_fields_def map_add_def)
  show ?thesis
    apply (rule exI [of _ "db(''user'' := upserted e idinfo E (db ''user''))"])
    apply (rule exI [of _ ?d])
    using s u v doc by simp
qed

text \<open>A successful request that finds no record of the email: one record is created.\<close>

lemma step_new:
  assumes "succeeds_for E (auth_google cfg e (Some db) payload)"
    and "find (has_email E) (db ''user'') = None"
  shows "\<exists>db' d.
     db_after (auth_google cfg e (Some db) payload) = Some db' \<and>
     users_after (auth_google cfg e (Some db) payload) = db' ''user'' \<and>
     find (has_email E) (db' ''user'') = Some d \<and>
     db' ''user'' = db ''user'' @ [d] \<and>
     doc_id d = new_object_id e \<and>
     doc_fields d ''created_at'' = Some (PDatetime (bson_millis (utcnow_upsert e))) \<and>
     doc_fields d ''updated_at'' = Some (PDatetime (bson_millis (utcnow_upsert e))) \<and>
     returned_id (auth_google cfg e (Some db) payload) = Some (PStr (str_oid (doc_id d))) \<and>
     length (records_for E (db' ''user'')) = 1 \<and>
     records_of_others E (db' ''user'') = records_of_others E (db ''user'') \<and>
     records_for E (db ''user'') = []"
proof -
  from succeeds_for_step [OF assms(1)] obtain idinfo doc where
    s: "db_after (auth_google cfg e (Some db) payload)
          = Some (db(''user'' := upserted e idinfo E (db ''user'')))"
       "users_after (auth_google cfg e (Some db) payload) = upserted e idinfo E (db ''user'')"
       "find (has_email E) (upserted e idinfo E (db ''user'')) = Some doc"
       "returned_id (auth_google cfg e (Some db) payload) = Some (PStr (str_oid (doc_id doc)))"
    by (elim exE conjE) (rule that)
  let ?S = "set_fields E (idinfo ''name'') (idinfo ''picture'') (idinfo ''sub'')
      (bson_millis (utcnow_upsert e))"
  let ?d = "\<lparr>doc_id = new_object_id e,
             doc_fields = map_of (email_filter E) ++ map_of ?S
               ++ map_of (set_on_insert_fields (bson_millis (utcnow_upsert e)))\<rparr>"
  note u = upsert_new(1-4) [OF assms(2), of "idinfo ''name''" "idinfo ''picture''"
      "idinfo ''sub''" "utcnow_upsert e" "utcnow_upsert e" "new_object_id e"]
    upsert_new(5) [OF assms(2)]
  from s(3) u(2) have doc: "doc = ?d"
    by simp
  have v: "doc_fields ?d ''created_at'' = Some (PDatetime (bson_millis (utcnow_upsert e)))"
    "doc_fields ?d ''updated_at'' = Some (PDatetime (bson_millis (utcnow_upsert e)))"
    "doc_id ?d = new_object_id e"
    by (simp_all add: set_fields_def set_on_insert_fields_def map_add_def)
  show ?thesis
    apply (rule exI [of _ "db(''user'' := upserted e idinfo E (db ''user''))"])
    apply (rule exI [of _ ?d])
    using s u v doc by simp
qed

lemma length_serve: "length (serve cfg db reqs) = length reqs"
  by (induction reqs arbitrary: db) (auto simp: Let_def)

text \<open>Once the record exists, every further successful request updates that same record.\<close>

lemma serve_existing:
  assumes "find (has_email E) (db ''user'') = Some d0"
    and "list_all (succeeds_for E) (serve cfg (Some db) reqs)"
    and "k < length reqs"
  shows "\<exists>d.
     find (has_email E) (users_after (serve cfg (Some db) reqs ! k)) = Some d \<and>
     doc_id d = doc_id d0 \<and>
     doc_fields d ''created_at'' = doc_fields d0 ''created_at'' \<and>
     doc_fields d ''updated_at''
       = Some (PDatetime (bson_millis (utcnow_upsert (fst (reqs ! k))))) \<and>
     returned_id (serve cfg (Some db) reqs ! k) = Some (PStr (str_oid (doc_id d0))) \<and>
     length (records_for E (users_after (serve cfg (Some db) reqs ! k)))
       = length (records_for E (db ''user'')) \<and>
     length (users_after (serve cfg (Some db) reqs ! k)) = length (db ''user'') \<and>
     records_of_others E (users_after (serve cfg (Some db) reqs ! k))
       = records_of_others E (db ''user'')"
  using assms
proof (induction reqs arbitrary: db d0 k)
  case Nil
  then show ?case by simp
next
  case (Cons req reqs)
  obtain e p where req: "req = (e, p)"
    by (cases req)
  let ?out = "auth_google cfg e (Some db) p"
  from Cons.prems(2) have s: "succeeds_for E ?out"
    and rest: "list_all (succeeds_for E) (serve cfg (db_after ?out) reqs)"
    by (simp_all add: req Let_def)
  from step_existing [OF s Cons.prems(1)] obtain db' d where
    st: "db_after ?out = Some db'" "users_after ?out = db' ''user''"
      "find (has_email E) (db' ''user'') = Some d"
      "doc_id d = doc_id d0"
      "doc_fields d ''created_at'' = doc_fields d0 ''created_at''"
      "doc_fields d ''updated_at'' = Some (PDatetime (bson_millis (utcnow_upsert e)))"
      "returned_id ?out = Some (PStr (str_oid (doc_id d0)))"
      "length (records_for E (db' ''user'')) = length (records_for E (db ''user''))"
      "length (db' ''user'') = length (db ''user'')"
      "records_of_others E (db' ''user'') = records_of_others E (db ''user'')"
    by (elim exE conjE) (rule that)
  show ?case
  proof (cases k)
    case 0
    show ?thesis
      apply (rule exI [of _ d])
      using st 0 by (simp add: req Let_def)
  next
    case (Suc j)
    with Cons.prems(3) have j: "j < length reqs"
      by simp
    from rest st(1) have rest': "list_all (succeeds_for E) (serve cfg (Some db') reqs)"
      by simp
    from Cons.IH [OF st(3) rest' j] obtain d' where
      ih: "find (has_email E) (users_after (serve cfg (Some db') reqs ! j)) = Some d'"
        "doc_id d' = doc_id d"
        "doc_fields d' ''created_at'' = doc_fields d ''created_at''"
        "doc_fields d' ''updated_at''
           = Some (PDatetime (bson_millis (utcnow_upsert (fst (reqs ! j)))))"
        "returned_id (serve cfg (Some db') reqs ! j) = Some (PStr (str_oid (doc_id d)))"
        "length (records_for E (users_after (serve cfg (Some db') reqs ! j)))
           = length (records_for E (db' ''user''))"
        "length (users_after (serve cfg (Some db') reqs ! j)) = length (db' ''user'')"
        "records_of_others E (users_after (serve cfg (Some db') reqs ! j))
           = records_of_others E (db' ''user'')"
      by (elim exE conjE) (rule that)
    show ?thesis
      apply (rule exI [of _ d'])
      using ih st Suc by (simp add: req Let_def)
  qed
qed

text \<open>
  C1. Take any non-empty sequence of requests served one after the other on a configured
  database, all successful and all carrying the email \<open>E\<close>. A record belongs to \<open>E\<close> when
  its \<^verbatim>\<open>email\<close> field is \<open>E\<close>. After the first request there is a record \<open>first\<close> of \<open>E\<close>,
  the first one in the collection: when no record belonged to \<open>E\<close> before, it is the one
  record the first request appended, with the generated \<^verbatim>\<open>_id\<close> and \<^verbatim>\<open>created_at\<close> set to
  that request's clock reading; otherwise nothing was appended. After every request of
  the sequence the first record of \<open>E\<close> has the \<^verbatim>\<open>_id\<close> and the \<^verbatim>\<open>created_at\<close> of \<open>first\<close>,
  its \<^verbatim>\<open>updated_at\<close> is that request's clock reading, the identifier returned is
  \<^verbatim>\<open>str(_id)\<close> of \<open>first\<close>, neither the number of records of \<open>E\<close> nor the size of the
  collection has grown since the first request, and the records of other emails are the
  ones the collection held before the sequence, unchanged. Clock readings are stored to
  the millisecond: the stored time is at most the reading and less than a millisecond
  before it.
\<close>

theorem upsert_keeps_one_record:
  assumes "reqs \<noteq> []"
    and "list_all (succeeds_for E) (serve cfg (Some db) reqs)"
  shows "\<exists>first.
     find (has_email E) (users_after (hd (serve cfg (Some db) reqs))) = Some first \<and>
     doc_fields first ''email'' = Some (PStr E) \<and>
     length (records_for E (users_after (hd (serve cfg (Some db) reqs))))
       = max 1 (length (records_for E (db ''user''))) \<and>
     (if records_for E (db ''user'') = []
      then users_after (hd (serve cfg (Some db) reqs)) = db ''user'' @ [first] \<and>
           doc_id first = new_object_id (fst (hd reqs)) \<and>
           doc_fields first ''created_at''
             = Some (PDatetime (bson_millis (utcnow_upsert (fst (hd reqs)))))
      else length (users_after (hd (serve cfg (Some db) reqs))) = length (db ''user'')) \<and>
     (\<forall>k < length reqs. \<exists>d.
        find (has_email E) (users_after (serve cfg (Some db) reqs ! k)) = Some d \<and>
        doc_fields d ''email'' = Some (PStr E) \<and>
        doc_id d = doc_id first \<and>
        doc_fields d ''created_at'' = doc_fields first ''created_at'' \<and>
        doc_fields d ''updated_at''
          = Some (PDatetime (bson_millis (utcnow_upsert (fst (reqs ! k))))) \<and>
        bson_millis (utcnow_upsert (fst (reqs ! k))) \<le> utcnow_upsert (fst (reqs ! k)) \<and>
        utcnow_upsert (fst (reqs ! k)) - 1000 < bson_millis (utcnow_upsert (fst (reqs ! k))) \<and>
        returned_id (serve cfg (Some db) reqs ! k) = Some (PStr (str_oid (doc_id first))) \<and>
        length (records_for E (users_after (serve cfg (Some db) reqs ! k)))
          = length (records_for E (users_after (hd (serve cfg (Some db) reqs)))) \<and>
        length (users_after (serve cfg (Some db) reqs ! k))
          = length (users_after (hd (serve cfg (Some db) reqs))) \<and>
        records_of_others E (users_after (serve cfg (Some db) reqs ! k))
          = records_of_others E (db ''user''))"
proof -
  from assms(1) obtain e p rest where reqs: "reqs = (e, p) # rest"
    by (cases reqs) auto
  let ?out = "auth_google cfg e (Some db) p"
  from assms(2) have s: "succeeds_for E ?out"
    and tl: "list_all (succeeds_for E) (serve cfg (db_after ?out) rest)"
    by (simp_all add: reqs Let_def)
  have hd: "hd (serve cfg (Some db) reqs) = ?out"
    by (simp add: reqs Let_def)
  have hr: "fst (hd reqs) = e"
    by (simp add: reqs)
  have "\<exists>db' first.
     db_after ?out = Some db' \<and> users_after ?out = db' ''user'' \<and>
     find (has_email E) (db' ''user'') = Some first \<and>
     doc_fields first ''updated_at'' = Some (PDatetime (bson_millis (utcnow_upsert e))) \<and>
     returned_id ?out = Some (PStr (str_oid (doc_id first))) \<and>
     length (records_for E (db' ''user'')) = max 1 (length (records_for E (db ''user''))) \<and>
     records_of_others E (db' ''user'') = records_of_others E (db ''user'') \<and>
     (if records_for E (db ''user'') = []
      then db' ''user'' = db ''user'' @ [first] \<and> doc_id first = new_object_id e \<and>
           doc_fields first ''created_at'' = Some (PDatetime (bson_millis (utcnow_upsert e)))
      else length (db' ''user'') = length (db ''user''))"
  proof (cases "find (has_email E) (db ''user'')")
    case None
    from step_new [OF s None] obtain db' d where
      n: "db_after ?out = Some db'" "users_after ?out = db' ''user''"
        "find (has_email E) (db' ''user'') = Some d"
        "db' ''user'' = db ''user'' @ [d]" "doc_id d = new_object_id e"
        "doc_fields d ''created_at'' = Some (PDatetime (bson_millis (utcnow_upsert e)))"
        "doc_fields d ''updated_at'' = Some (PDatetime (bson_millis (utcnow_upsert e)))"
        "returned_id ?out = Some (PStr (str_oid (doc_id d)))"
        "length (records_for E (db' ''user'')) = 1"
        "records_of_others E (db' ''user'') = records_of_others E (db ''user'')"
        "records_for E (db ''user'') = []"
      by (elim exE conjE) (rule that)
    show ?thesis
      apply (rule exI [of _ db'], rule exI [of _ d])
      using n by simp
  next
    case (Some d0)
    from step_existing [OF s Some] obtain db' d where
      x: "db_after ?out = Some db'" "users_after ?out = db' ''user''"
        "find (has_email E) (db' ''user'') = Some d"
        "doc_fields d ''updated_at'' = Some (PDatetime (bson_millis (utcnow_upsert e)))"
        "returned_id ?out = Some (PStr (str_oid (doc_id d0)))"
        "doc_id d = doc_id d0"
        "length (records_for E (db' ''user'')) = length (records_for E (db ''user''))"
        "length (db' ''user'') = length (db ''user'')"
        "records_of_others E (db' ''user'') = records_of_others E (db ''user'')"
      by (elim exE conjE) (rule that)
    from Some have ne: "records_for E (db ''user'') \<noteq> []"
      by (simp add: records_for_def find_Some_filter)
    then have "max 1 (length (records_for E (db ''user''))) = length (records_for E (db ''user''))"
      by (cases "records_for E (db ''user'')") simp_all
    with x ne show ?thesis
      by (intro exI [of _ db'] exI [of _ d]) simp
  qed
  then obtain db' first where
    f: "db_after ?out = Some db'" "users_after ?out = db' ''user''"
      "find (has_email E) (db' ''user'') = Some first"
      "doc_fields first ''updated_at'' = Some (PDatetime (bson_millis (utcnow_upsert e)))"
      "returned_id ?out = Some (PStr (str_oid (doc_id first)))"
      "length (records_for E (db' ''user'')) = max 1 (length (records_for E (db ''user'')))"
      "records_of_others E (db' ''user'') = records_of_others E (db ''user'')"
      "if records_for E (db ''user'') = []
       then db' ''user'' = db ''user'' @ [first] \<and> doc_id first = new_object_id e \<and>
            doc_fields first ''created_at'' = Some (PDatetime (bson_millis (utcnow_upsert e)))
       else length (db' ''user'') = length (db ''user'')"
    by (elim exE conjE) (rule that)
  from find_Some_holds [OF f(3)] have fe: "doc_fields first ''email'' = Some (PStr E)"
    by (simp add: has_email_def)
  from tl f(1) have tl': "list_all (succeeds_for E) (serve cfg (Some db') rest)"
    by simp
  have later: "\<exists>d.
        find (has_email E) (users_after (serve cfg (Some db) reqs ! k)) = Some d \<and>
        doc_fields d ''email'' = Some (PStr E) \<and>
        doc_id d = doc_id first \<and>
        doc_fields d ''created_at'' = doc_fields first ''created_at'' \<and>
        doc_fields d ''updated_at''
          = Some (PDatetime (bson_millis (utcnow_upsert (fst (reqs ! k))))) \<and>
        bson_millis (utcnow_upsert (fst (reqs ! k))) \<le> utcnow_upsert (fst (reqs ! k)) \<and>
        utcnow_upsert (fst (reqs ! k)) - 1000 < bson_millis (utcnow_upsert (fst (reqs ! k))) \<and>
        returned_id (serve cfg (Some db) reqs ! k) = Some (PStr (str_oid (doc_id first))) \<and>
        length (records_for E (users_after (serve cfg (Some db) reqs ! k)))
          = length (records_for E (users_after (hd (serve cfg (Some db) reqs)))) \<and>
        length (users_after (serve cfg (Some db) reqs ! k))
          = length (users_after (hd (serve cfg (Some db) reqs))) \<and>
        records_of_others E (users_after (serve cfg (Some db) reqs ! k))
          = records_of_others E (db ''user'')"
    if k: "k < length reqs" for k
  proof (cases k)
    case 0
    show ?thesis
      apply (rule exI [of _ first])
      using f fe 0 bson_millis_bounds [of "utcnow_upsert e"] by (simp add: reqs Let_def)
  next
    case (Suc j)
    with k have j: "j < length rest"
      by (simp add: reqs)
    from serve_existing [OF f(3) tl' j] obtain d where
      d: "find (has_email E) (users_after (serve cfg (Some db') rest ! j)) = Some d"
        "doc_id d = doc_id first"
        "doc_fields d ''created_at'' = doc_fields first ''created_at''"
        "doc_fields d ''updated_at''
           = Some (PDatetime (bson_millis (utcnow_upsert (fst (rest ! j)))))"
        "returned_id (serve cfg (Some db') rest ! j) = Some (PStr (str_oid (doc_id first)))"
        "length (records_for E (users_after (serve cfg (Some db') rest ! j)))
           = length (records_for E (db' ''user''))"
        "length (users_after (serve cfg (Some db') rest ! j)) = length (db' ''user'')"
        "records_of_others E (users_after (serve cfg (Some db') rest ! j))
           = records_of_others E (db' ''user'')"
      by (elim exE conjE) (rule that)
    from find_Some_holds [OF d(1)] have de: "doc_fields d ''email'' = Some (PStr E)"
      by (simp add: has_email_def)
    show ?thesis
      apply (rule exI [of _ d])
      using d de f Suc bson_millis_bounds [of "utcnow_upsert (fst (rest ! j))"]
      by (simp add: reqs Let_def)
  qed
  show ?thesis
    apply (rule exI [of _ first])
    using f fe later by (simp add: hd hr)
qed

lemma ex_success1:
  "result (auth_google ex_cfg ex_env1 (Some bob_db) ex_payload) = Inr ex_response"
  by (simp add: eval_defs ex_defs ex_env1_def bob_db_def bob_doc_def ex_response_def)

lemma ex_db_after:
  "db_after (auth_google ex_cfg ex_env1 (Some bob_db) ex_payload) = Some both_db"
  by (simp add: eval_defs ex_defs ex_env1_def bob_db_def both_db_def bob_doc_def alice_doc_def)

lemma ex_users_after1:
  "users_after (auth_google ex_cfg ex_env1 (Some bob_db) ex_payload) = [bob_doc, alice_doc]"
  by (simp add: users_after_def ex_db_after both_db_def)

lemma ex_db_after2:
  "users_after (auth_google ex_cfg ex_env2 (Some both_db) ex_payload) = [bob_doc, alice_doc2]"
  by (simp add: eval_defs ex_defs ex_env2_def alice_idinfo2_def both_db_def bob_doc_def
      alice_doc_def alice_doc2_def users_after_def fun_eq_iff)

lemma ex_serve_succeeds:
  "list_all (succeeds_for ''alice@example.com'') (serve ex_cfg (Some bob_db) ex_reqs)"
  by (simp add: ex_reqs_def Let_def ex_db_after succeeds_for_def ex_success1 ex_success2
      ex_response_def ex_response2_def user_view_def)

theorem upsert_keeps_one_record_witness:
  "ex_reqs \<noteq> [] \<and>
   list_all (succeeds_for ''alice@example.com'') (serve ex_cfg (Some bob_db) ex_reqs) \<and>
   map utcnow_upsert (map fst ex_reqs) = [1250, 5250] \<and>
   bob_db ''user'' = [bob_doc] \<and>
   map users_after (serve ex_cfg (Some bob_db) ex_reqs)
     = [[bob_doc, alice_doc], [bob_doc, alice_doc2]] \<and>
   doc_fields alice_doc ''created_at'' = Some (PDatetime 1000) \<and>
   doc_fields alice_doc ''updated_at'' = Some (PDatetime 1000) \<and>
   doc_fields alice_doc2 ''created_at'' = Some (PDatetime 1000) \<and>
   doc_fields alice_doc2 ''updated_at'' = Some (PDatetime 5000) \<and>
   map returned_id (serve ex_cfg (Some bob_db) ex_reqs)
     = [Some (PStr alice_id), Some (PStr alice_id)] \<and>
   (\<exists>first.
     find (has_email ''alice@example.com'')
       (users_after (hd (serve ex_cfg (Some bob_db) ex_reqs))) = Some first \<and>
     doc_fields first ''email'' = Some (PStr ''alice@example.com'') \<and>
     length (records_for ''alice@example.com''
       (users_after (hd (serve ex_cfg (Some bob_db) ex_reqs))))
       = max 1 (length (records_for ''alice@example.com'' (bob_db ''user''))) \<and>
     (if records_for ''alice@example.com'' (bob_db ''user'') = []
      then users_after (hd (serve ex_cfg (Some bob_db) ex_reqs)) = bob_db ''user'' @ [first] \<and>
           doc_id first = new_object_id (fst (hd ex_reqs)) \<and>
           doc_fields first ''created_at''
             = Some (PDatetime (bson_millis (utcnow_upsert (fst (hd ex_reqs)))))
      else length (users_after (hd (serve ex_cfg (Some bob_db) ex_reqs)))
             = length (bob_db ''user'')) \<and>
     (\<forall>k < length ex_reqs. \<exists>d.
        find (has_email ''alice@example.com'')
          (users_after (serve ex_cfg (Some bob_db) ex_reqs ! k)) = Some d \<and>
        doc_fields d ''email'' = Some (PStr ''alice@example.com'') \<and>
        doc_id d = doc_id first \<and>
        doc_fields d ''created_at'' = doc_fields first ''created_at'' \<and>
        doc_fields d ''updated_at''
          = Some (PDatetime (bson_millis (utcnow_upsert (fst (ex_reqs ! k))))) \<and>
        bson_millis (utcnow_upsert (fst (ex_reqs ! k))) \<le> utcnow_upsert (fst (ex_reqs ! k)) \<and>
        utcnow_upsert (fst (ex_reqs ! k)) - 1000
          < bson_millis (utcnow_upsert (fst (ex_reqs ! k))) \<and>
        returned_id (serve ex_cfg (Some bob_db) ex_reqs ! k)
          = Some (PStr (str_oid (doc_id first))) \<and>
        length (records_for ''alice@example.com''
          (users_after (serve ex_cfg (Some bob_db) ex_reqs ! k)))
          = length (records_for ''alice@example.com''
              (users_after (hd (serve ex_cfg (Some bob_db) ex_reqs)))) \<and>
        length (users_after (serve ex_cfg (Some bob_db) ex_reqs ! k))
          = length (users_after (hd (serve ex_cfg (Some bob_db) ex_reqs))) \<and>
        records_of_others ''alice@example.com''
          (users_after (serve ex_cfg (Some bob_db) ex_reqs ! k))
          = records_of_others ''alice@example.com'' (bob_db ''user'')))"
proof -
  have h1: "ex_reqs \<noteq> []"
    by (simp add: ex_reqs_def)
  have ts: "map utcnow_upsert (map fst ex_reqs) = [1250, 5250]"
    by (simp add: ex_reqs_def ex_env1_def ex_env2_def)
  have b: "bob_db ''user'' = [bob_doc]"
    by (simp add: bob_db_def)
  have us: "map users_after (serve ex_cfg (Some bob_db) ex_reqs)
     = [[bob_doc, alice_doc], [bob_doc, alice_doc2]]"
    by (simp add: ex_reqs_def Let_def ex_db_after ex_users_after1 ex_db_after2)
  have a: "doc_fields alice_doc ''created_at'' = Some (PDatetime 1000)"
    "doc_fields alice_doc ''updated_at'' = Some (PDatetime 1000)"
    by (simp_all add: alice_doc_def set_fields_def set_on_insert_fields_def email_filter_def)
  have a2: "doc_fields alice_doc2 ''created_at'' = Some (PDatetime 1000)"
    "doc_fields alice_doc2 ''updated_at'' = Some (PDatetime 5000)"
    by (simp_all add: alice_doc2_def)
  have ids: "map returned_id (serve ex_cfg (Some bob_db) ex_reqs)
     = [Some (PStr alice_id), Some (PStr alice_id)]"
    by (simp add: ex_reqs_def Let_def ex_db_after returned_id_def ex_success1 ex_success2
        ex_response_def ex_response2_def user_view_def)
  from h1 ex_serve_succeeds ts b us a a2 ids upsert_keeps_one_record [OF h1 ex_serve_succeeds]
  show ?thesis
    by (intro conjI)
qed

end
